theory Spec2Isabelle
  imports Main "HOL-Library.Word" "HOL-Library.Code_Target_Numeral"
begin

unbundle bit_operations_syntax

section \<open>Platform, constants and types of libqca7k\<close>

text \<open>
  The driver is C code whose meaning depends on three properties of the compilation
  target: the byte order of the host (\<^verbatim>\<open>__BYTE_ORDER__\<close>), the width of \<^verbatim>\<open>int\<close> (which
  decides the integer promotion of \<^verbatim>\<open>uint16_t\<close> operands) and the width of \<^verbatim>\<open>size_t\<close>.
  They are gathered in a \<open>platform\<close> record that every operation takes as its first
  argument. Values of type \<^verbatim>\<open>size_t\<close> are natural numbers, and the arithmetic on them
  that can wrap is written out modulo \<open>2 ^ size_bits\<close>.
\<close>

type_synonym u8 = "8 word"
type_synonym u16 = "16 word"
type_synonym u32 = "32 word"

text \<open>A pointer to bytes is an address; \<open>NULL\<close> is address 0.\<close>

type_synonym addr = nat

definition NULL :: addr where
  "NULL = 0"

datatype endianness = LittleEndian | BigEndian

text \<open>\<open>Int16\<close>: \<^verbatim>\<open>int\<close> has 16 bits, so \<^verbatim>\<open>uint16_t\<close> promotes to a 16-bit \<^verbatim>\<open>unsigned int\<close>.
  \<open>Int32\<close>: \<^verbatim>\<open>int\<close> has 32 bits, so \<^verbatim>\<open>uint16_t\<close> promotes to a 32-bit signed \<^verbatim>\<open>int\<close>.\<close>

datatype int_width = Int16 | Int32

datatype size_width = Size16 | Size32 | Size64

record platform =
  host_order :: endianness
  int_model :: int_width
  size_model :: size_width

fun size_width_bits :: "size_width \<Rightarrow> nat" where
  "size_width_bits Size16 = 16"
| "size_width_bits Size32 = 32"
| "size_width_bits Size64 = 64"

definition size_bits :: "platform \<Rightarrow> nat" where
  "size_bits p = size_width_bits (size_model p)"

text \<open>\<^verbatim>\<open>x --\<close> and \<^verbatim>\<open>x ++\<close> on a \<^verbatim>\<open>size_t\<close>.\<close>

definition size_dec :: "platform \<Rightarrow> nat \<Rightarrow> nat" where
  "size_dec p n = (n + 2 ^ size_bits p - 1) mod 2 ^ size_bits p"

definition size_inc :: "platform \<Rightarrow> nat \<Rightarrow> nat" where
  "size_inc p n = (n + 1) mod 2 ^ size_bits p"

subsection \<open>Constants of libqca7k.h\<close>

definition QCA7K_REG_BFR_SIZE :: u32 where "QCA7K_REG_BFR_SIZE = 0x0100"
definition QCA7K_REG_WRBUF_SPC_AVA :: u32 where "QCA7K_REG_WRBUF_SPC_AVA = 0x0200"
definition QCA7K_REG_RDBUF_BYTE_AVA :: u32 where "QCA7K_REG_RDBUF_BYTE_AVA = 0x0300"
definition QCA7K_REG_SPI_CONFIG :: u32 where "QCA7K_REG_SPI_CONFIG = 0x0400"
definition QCA7K_REG_INTR_CAUSE :: u32 where "QCA7K_REG_INTR_CAUSE = 0x0C00"
definition QCA7K_REG_INTR_ENABLE :: u32 where "QCA7K_REG_INTR_ENABLE = 0x0D00"
definition QCA7K_REG_SIGNATURE :: u32 where "QCA7K_REG_SIGNATURE = 0x1A00"

definition QCA7K_FRAME_MAX :: nat where "QCA7K_FRAME_MAX = 1522"
definition QCA7K_FRAME_MIN :: nat where "QCA7K_FRAME_MIN = 60"

definition QCA7K_SOF :: u8 where "QCA7K_SOF = 0xAA"
definition QCA7K_RESERVED :: u8 where "QCA7K_RESERVED = 0x00"
definition QCA7K_EOF :: u8 where "QCA7K_EOF = 0x55"

datatype qca7k_state_t =
    QCA7K_OK
  | QCA7K_BAD_SIGNATURE
  | QCA7K_FRAME_OVERFLOW
  | QCA7K_WRITE_BUFFER_INSUFFICIENT
  | QCA7K_NULL_RECV_BUFFER
  | QCA7K_EMPTY_READ_BUFFER
  | QCA7K_INTERNAL_ERROR
  | QCA7K_READING_SOF
  | QCA7K_READING_FL
  | QCA7K_READING_RESERVED
  | QCA7K_READING_FRAME
  | QCA7K_READING_EOF

section \<open>The machine: bus, memory and the driver's static variables\<close>

text \<open>
  The four SPI shims are supplied by the user of the library. They are modelled by a
  bus that records every call in order (\<open>trace\<close>) and answers \<^verbatim>\<open>qca7k_spi_read\<close> from
  the bytes the chip will present (\<open>miso\<close>); once those are used up the line reads
  \<open>miso_idle\<close>.
\<close>

datatype spi_event = SpiBegin | SpiEnd | SpiWrite u8 | SpiRead u8

record machine =
  miso :: "u8 list"
  miso_idle :: u8
  trace :: "spi_event list"
  mem :: "addr \<Rightarrow> u8"
  g_state :: qca7k_state_t
  g_recv_buf_origin :: addr
  g_recv_buf_ptr :: addr
  g_state_bytes_left :: nat
  g_expected_byte :: u8
  g_fl :: u16
  recv_v :: u8

text \<open>The static initialisers of libqca7k.c (lines 24-31 and 211), over a given bus and memory.\<close>

definition initial_machine :: "u8 list \<Rightarrow> u8 \<Rightarrow> (addr \<Rightarrow> u8) \<Rightarrow> machine" where
  "initial_machine bytes idle m =
     \<lparr>miso = bytes, miso_idle = idle, trace = [], mem = m,
      g_state = QCA7K_READING_SOF, g_recv_buf_origin = NULL, g_recv_buf_ptr = NULL,
      g_state_bytes_left = 4, g_expected_byte = QCA7K_SOF, g_fl = 0, recv_v = 0x00\<rparr>"

subsection \<open>The SPI shims\<close>

definition qca7k_spi_begin :: "machine \<Rightarrow> machine" where
  "qca7k_spi_begin s = s\<lparr>trace := trace s @ [SpiBegin]\<rparr>"

definition qca7k_spi_end :: "machine \<Rightarrow> machine" where
  "qca7k_spi_end s = s\<lparr>trace := trace s @ [SpiEnd]\<rparr>"

definition qca7k_spi_write :: "u8 \<Rightarrow> machine \<Rightarrow> machine" where
  "qca7k_spi_write v s = s\<lparr>trace := trace s @ [SpiWrite v]\<rparr>"

definition qca7k_spi_read :: "machine \<Rightarrow> u8 \<times> machine" where
  "qca7k_spi_read s =
     (case miso s of
        [] \<Rightarrow> (miso_idle s, s\<lparr>trace := trace s @ [SpiRead (miso_idle s)]\<rparr>)
      | b # bs \<Rightarrow> (b, s\<lparr>miso := bs, trace := trace s @ [SpiRead b]\<rparr>))"

section \<open>Command and register codec\<close>

text \<open>\<^verbatim>\<open>__u16\<close> (lines 34-37): the byte repeated in both halves.\<close>

definition u16_rep :: "u8 \<Rightarrow> u16" where
  "u16_rep v = push_bit 8 (ucast v) OR ucast v"

text \<open>The two bytes of a \<^verbatim>\<open>uint16_t\<close> as the host stores them: the union of lines 148-152
  and 314-318, \<open>bytes[0]\<close> first.\<close>

definition union_bytes :: "platform \<Rightarrow> u16 \<Rightarrow> u8 \<times> u8" where
  "union_bytes p val =
     (case host_order p of
        LittleEndian \<Rightarrow> (ucast val, ucast (drop_bit 8 val))
      | BigEndian \<Rightarrow> (ucast (drop_bit 8 val), ucast val))"

text \<open>\<^verbatim>\<open>qca7k_write_register\<close> (lines 312-327): on a little-endian host the two bytes are
  swapped before they are written.\<close>

definition qca7k_write_register :: "platform \<Rightarrow> u16 \<Rightarrow> machine \<Rightarrow> machine" where
  "qca7k_write_register p val s =
     (let (b0, b1) = union_bytes p val;
          (b0, b1) = (if host_order p = LittleEndian then (b1, b0) else (b0, b1));
          s = qca7k_spi_write b0 s
      in qca7k_spi_write b1 s)"

text \<open>\<^verbatim>\<open>qca7k_read_register\<close> (lines 329-339).\<close>

definition qca7k_read_register :: "platform \<Rightarrow> machine \<Rightarrow> u16 \<times> machine" where
  "qca7k_read_register p s =
     (let (a, s) = qca7k_spi_read s;
          res = (ucast a :: u16)
      in if host_order p = LittleEndian
         then (let (b, s) = qca7k_spi_read s in (res OR push_bit 8 (ucast b), s))
         else (let res = push_bit 8 res;
                   (b, s) = qca7k_spi_read s
               in (res OR ucast b, s)))"

text \<open>
  \<^verbatim>\<open>(reg << 2) >> 2\<close> of line 307. The operand \<^verbatim>\<open>reg\<close> is a \<^verbatim>\<open>uint16_t\<close> and is promoted
  before the shift. With a 16-bit \<^verbatim>\<open>int\<close> it becomes a 16-bit \<^verbatim>\<open>unsigned int\<close> and the left
  shift drops the two top bits. With a 32-bit \<^verbatim>\<open>int\<close> it becomes a signed \<^verbatim>\<open>int\<close>, the
  shifts are done on 32 bits, and the result is converted to \<^verbatim>\<open>uint16_t\<close> on assignment.
\<close>

definition shl2_shr2 :: "platform \<Rightarrow> u16 \<Rightarrow> u16" where
  "shl2_shr2 p reg =
     (case int_model p of
        Int16 \<Rightarrow> drop_bit 2 (push_bit 2 reg)
      | Int32 \<Rightarrow> ucast (drop_bit 2 (push_bit 2 (ucast reg :: u32))))"

text \<open>The command word that \<^verbatim>\<open>qca7k_write_command\<close> computes (lines 307-308).\<close>

definition command_word :: "platform \<Rightarrow> bool \<Rightarrow> bool \<Rightarrow> u16 \<Rightarrow> u16" where
  "command_word p rw inl reg =
     (let res = (if inl then shl2_shr2 p reg else 0x0000)
      in res OR (push_bit 15 (of_bool rw) OR push_bit 14 (of_bool inl)))"

text \<open>\<^verbatim>\<open>qca7k_write_command\<close> (lines 305-310).\<close>

definition qca7k_write_command :: "platform \<Rightarrow> bool \<Rightarrow> bool \<Rightarrow> u16 \<Rightarrow> machine \<Rightarrow> machine" where
  "qca7k_write_command p rw inl reg s = qca7k_write_register p (command_word p rw inl reg) s"

section \<open>Interrupts\<close>

text \<open>\<^verbatim>\<open>qca7k_interrupts_set\<close> (lines 351-357).\<close>

definition qca7k_interrupts_set :: "platform \<Rightarrow> u16 \<Rightarrow> machine \<Rightarrow> machine" where
  "qca7k_interrupts_set p msk s =
     (let s = qca7k_spi_begin s;
          s = qca7k_write_command p False True (ucast QCA7K_REG_INTR_ENABLE) s;
          s = qca7k_write_register p msk s
      in qca7k_spi_end s)"

text \<open>\<^verbatim>\<open>qca7k_interrupts_disable_all\<close> (lines 49-52).\<close>

definition qca7k_interrupts_disable_all :: "platform \<Rightarrow> machine \<Rightarrow> machine" where
  "qca7k_interrupts_disable_all p s = qca7k_interrupts_set p 0x0000 s"

text \<open>\<^verbatim>\<open>qca7k_interrupt_reasons\<close> (lines 59-75).\<close>

definition qca7k_interrupt_reasons :: "platform \<Rightarrow> machine \<Rightarrow> u16 \<times> machine" where
  "qca7k_interrupt_reasons p s =
     (let s = qca7k_interrupts_disable_all p s;
          s = qca7k_spi_begin s;
          s = qca7k_write_command p True True (ucast QCA7K_REG_INTR_CAUSE) s;
          (reasons, s) = qca7k_read_register p s;
          s = qca7k_spi_end s;
          s = qca7k_spi_begin s;
          s = qca7k_write_command p False True (ucast QCA7K_REG_INTR_CAUSE) s;
          s = qca7k_write_register p reasons s;
          s = qca7k_spi_end s
      in (reasons, s))"

section \<open>Frame transmitter\<close>

text \<open>
  The payload loop of \<^verbatim>\<open>qca7k_send\<close> (lines 164-165). The counter \<open>i\<close> stays below
  \<open>size_to_write\<close>, itself a \<^verbatim>\<open>size_t\<close>, so \<^verbatim>\<open>i++\<close> cannot wrap. \<^verbatim>\<open>data[i]\<close> reads the
  caller's memory at address \<open>data + i\<close>.
\<close>

function send_frame_data :: "addr \<Rightarrow> nat \<Rightarrow> nat \<Rightarrow> nat \<Rightarrow> machine \<Rightarrow> machine" where
  "send_frame_data data sz size_to_write i s =
     (if i < size_to_write
      then send_frame_data data sz size_to_write (i + 1)
             (qca7k_spi_write (if i < sz then mem s (data + i) else 0x00) s)
      else s)"
  by pat_completeness auto
termination
  by (relation "measure (\<lambda>(data, sz, size_to_write, i, s). size_to_write - i)") auto

declare send_frame_data.simps [simp del]

text \<open>
  \<^verbatim>\<open>qca7k_send\<close> (lines 113-172). The union \<open>res\<close> of lines 148-158 receives the frame
  length, byte-swapped on a big-endian host so that \<open>bytes[0]\<close> is the low byte; no
  statement after line 158 reads it.
\<close>

definition qca7k_send :: "platform \<Rightarrow> addr \<Rightarrow> nat \<Rightarrow> machine \<Rightarrow> qca7k_state_t \<times> machine" where
  "qca7k_send p data sz s =
     (if sz > QCA7K_FRAME_MAX then (QCA7K_FRAME_OVERFLOW, s)
      else
       (let size_to_write = (if sz < QCA7K_FRAME_MIN then QCA7K_FRAME_MIN else sz);
            size_needed = (4 + 2 + 2 + size_to_write + 2) mod 2 ^ size_bits p;
            s = qca7k_spi_begin s;
            s = qca7k_write_command p True True (ucast QCA7K_REG_WRBUF_SPC_AVA) s;
            (write_available, s) = qca7k_read_register p s;
            s = qca7k_spi_end s
        in if unat write_available < size_needed then (QCA7K_WRITE_BUFFER_INSUFFICIENT, s)
           else
            (let s = qca7k_spi_begin s;
                 s = qca7k_write_command p False True (ucast QCA7K_REG_BFR_SIZE) s;
                 s = qca7k_write_register p (of_nat size_needed) s;
                 s = qca7k_spi_end s;
                 s = qca7k_spi_begin s;
                 s = qca7k_write_command p False False 0x0000 s;
                 s = qca7k_write_register p (u16_rep QCA7K_SOF) s;
                 s = qca7k_write_register p (u16_rep QCA7K_SOF) s;
                 res = union_bytes p (of_nat size_to_write);
                 res = (if host_order p \<noteq> LittleEndian then (snd res, fst res) else res);
                 s = qca7k_write_register p (u16_rep QCA7K_RESERVED) s;
                 s = send_frame_data data sz size_to_write 0 s;
                 s = qca7k_write_register p (u16_rep QCA7K_EOF) s;
                 s = qca7k_spi_end s
             in (QCA7K_OK, s))))"

section \<open>Frame receiver\<close>

text \<open>\<^verbatim>\<open>qca7k_reset_state_machine\<close> (lines 175-183).\<close>

definition qca7k_reset_state_machine :: "addr \<Rightarrow> machine \<Rightarrow> machine" where
  "qca7k_reset_state_machine data s =
     s\<lparr>g_recv_buf_origin := data,
       g_recv_buf_ptr := data,
       g_state_bytes_left := 4,
       g_expected_byte := QCA7K_SOF,
       g_state := QCA7K_READING_SOF,
       g_fl := 0\<rparr>"

text \<open>
  How one pass through the body of the \<^verbatim>\<open>for\<close> loop of \<^verbatim>\<open>qca7k_recv\<close> ends: it falls
  through to \<^verbatim>\<open>i++\<close> (\<open>NextByte\<close>), it sets \<^verbatim>\<open>retry_loop\<close>, undoes the coming \<^verbatim>\<open>i++\<close> with
  \<^verbatim>\<open>i--\<close> and continues (\<open>RetryByte\<close>), or it jumps to \<^verbatim>\<open>done\<close> (\<open>Done\<close>).
\<close>

datatype flow = NextByte | RetryByte | Done

text \<open>
  The end of the loop body (lines 256-296): the accepted byte is counted, and when the
  counter reaches zero the stage changes. \<^verbatim>\<open>_g_state_bytes_left = _g_fl\<close> converts a
  \<^verbatim>\<open>uint16_t\<close> to \<^verbatim>\<open>size_t\<close>, which has at least 16 bits and keeps the value.
\<close>

definition stage_end :: "platform \<Rightarrow> machine \<Rightarrow> flow \<times> machine" where
  "stage_end p s0 =
     (let s = s0\<lparr>g_state_bytes_left := size_dec p (g_state_bytes_left s0)\<rparr>
      in if g_state_bytes_left s = 0
         then (case g_state s of
                 QCA7K_READING_SOF \<Rightarrow>
                   (NextByte, s\<lparr>g_state := QCA7K_READING_FL, g_state_bytes_left := 2\<rparr>)
               | QCA7K_READING_FL \<Rightarrow>
                   (NextByte, s\<lparr>g_state := QCA7K_READING_RESERVED, g_state_bytes_left := 2,
                                g_expected_byte := QCA7K_RESERVED\<rparr>)
               | QCA7K_READING_RESERVED \<Rightarrow>
                   (NextByte, s\<lparr>g_state := QCA7K_READING_FRAME,
                                g_recv_buf_ptr := g_recv_buf_origin s,
                                g_state_bytes_left := unat (g_fl s)\<rparr>)
               | QCA7K_READING_FRAME \<Rightarrow>
                   (NextByte, s\<lparr>g_state := QCA7K_READING_EOF, g_state_bytes_left := 2,
                                g_expected_byte := QCA7K_EOF\<rparr>)
               | QCA7K_READING_EOF \<Rightarrow>
                   (Done, (qca7k_reset_state_machine (g_recv_buf_origin s) s)
                            \<lparr>g_state := QCA7K_OK\<rparr>)
               | _ \<Rightarrow> (NextByte, s))
         else (NextByte, s))"

text \<open>The sentinel stages (lines 221-235): the test of line 228 reads \<^verbatim>\<open>_g_state\<close> after
  the reset of line 226 has assigned it.\<close>

definition sentinel_byte :: "platform \<Rightarrow> u8 \<Rightarrow> machine \<Rightarrow> flow \<times> machine" where
  "sentinel_byte p v s =
     (if g_expected_byte s \<noteq> v
      then (let s = qca7k_reset_state_machine (g_recv_buf_origin s) s
            in if g_state s \<noteq> QCA7K_READING_SOF then (RetryByte, s) else (NextByte, s))
      else stage_end p s)"

text \<open>The body of the loop from the \<^verbatim>\<open>switch\<close> of line 218 on, for the byte \<open>v\<close>.\<close>

definition recv_byte :: "platform \<Rightarrow> u8 \<Rightarrow> machine \<Rightarrow> flow \<times> machine" where
  "recv_byte p v s =
     (case g_state s of
        QCA7K_READING_SOF \<Rightarrow> sentinel_byte p v s
      | QCA7K_READING_RESERVED \<Rightarrow> sentinel_byte p v s
      | QCA7K_READING_EOF \<Rightarrow> sentinel_byte p v s
      | QCA7K_READING_FL \<Rightarrow>
          (let s = s\<lparr>g_fl := push_bit 8 (g_fl s)\<rparr>;
               s = s\<lparr>g_fl := g_fl s OR ucast v\<rparr>
           in stage_end p s)
      | QCA7K_READING_FRAME \<Rightarrow>
          (let s = s\<lparr>mem := (mem s)(g_recv_buf_ptr s := v),
                     g_recv_buf_ptr := g_recv_buf_ptr s + 1\<rparr>
           in stage_end p s)
      | _ \<Rightarrow>
          (Done, (qca7k_reset_state_machine NULL s)\<lparr>g_state := QCA7K_INTERNAL_ERROR\<rparr>))"

text \<open>Lines 210-215: the byte \<open>v\<close> is a static variable, read from the bus unless
  \<^verbatim>\<open>retry_loop\<close> is set.\<close>

definition fetch_byte :: "bool \<Rightarrow> machine \<Rightarrow> u8 \<times> machine" where
  "fetch_byte retry_loop s =
     (if \<not> retry_loop
      then (let (v, s) = qca7k_spi_read s in (v, s\<lparr>recv_v := v\<rparr>))
      else (recv_v s, s))"

text \<open>
  The \<^verbatim>\<open>for\<close> loop of lines 208-297 with its counter \<open>i\<close> and the flag \<^verbatim>\<open>retry_loop\<close>.
  \<open>i\<close> stays below \<^verbatim>\<open>bytes_available\<close>, a \<^verbatim>\<open>uint16_t\<close>, so the \<^verbatim>\<open>i++\<close> of the loop
  header cannot wrap, except after the \<^verbatim>\<open>i--\<close> of line 231.
\<close>

function recv_loop :: "platform \<Rightarrow> u16 \<Rightarrow> nat \<Rightarrow> bool \<Rightarrow> machine \<Rightarrow> machine" where
  "recv_loop p bytes_available i retry_loop s =
     (if i < unat bytes_available
      then (case fetch_byte retry_loop s of (v, s1) \<Rightarrow>
              (case recv_byte p v s1 of
                 (NextByte, s2) \<Rightarrow> recv_loop p bytes_available (i + 1) False s2
               | (RetryByte, s2) \<Rightarrow>
                   recv_loop p bytes_available (size_inc p (size_dec p i)) True s2
               | (Done, s2) \<Rightarrow> s2))
      else s)"
  by pat_completeness auto
termination
proof (relation "measure (\<lambda>(p, bytes_available, i, retry_loop, s). unat bytes_available - i)")
  show "wf (measure (\<lambda>(p, bytes_available, i, retry_loop, s). unat bytes_available - i))"
    by simp
next
  fix p :: platform and bytes_available :: u16 and i :: nat and retry_loop :: bool
    and s s2 :: machine
  assume "i < unat bytes_available"
  then show "((p, bytes_available, i + 1, False, s2), (p, bytes_available, i, retry_loop, s))
      \<in> measure (\<lambda>(p, bytes_available, i, retry_loop, s). unat bytes_available - i)"
    by simp
next
  fix p :: platform and bytes_available :: u16 and i :: nat and retry_loop :: bool
    and s s1 s2 :: machine and v :: u8 and f :: flow
  assume step: "(f, s2) = recv_byte p v s1" and retry: "f = RetryByte"
  have sentinel: "fst (sentinel_byte p v s1) \<noteq> RetryByte"
    by (simp add: sentinel_byte_def stage_end_def qca7k_reset_state_machine_def Let_def
        split: qca7k_state_t.split)
  have "fst (recv_byte p v s1) \<noteq> RetryByte"
    by (simp add: recv_byte_def sentinel stage_end_def Let_def split: qca7k_state_t.split)
  moreover from step retry have "fst (recv_byte p v s1) = RetryByte"
    by (metis fst_conv)
  ultimately show "((p, bytes_available, size_inc p (size_dec p i), True, s2),
      (p, bytes_available, i, retry_loop, s))
      \<in> measure (\<lambda>(p, bytes_available, i, retry_loop, s). unat bytes_available - i)"
    by simp
qed

declare recv_loop.simps [simp del]

text \<open>
  \<^verbatim>\<open>qca7k_recv\<close> from line 196 on: the query of the read buffer, the scan of the bytes
  that are available, and the state returned.
\<close>

definition recv_scan :: "platform \<Rightarrow> machine \<Rightarrow> qca7k_state_t \<times> machine" where
  "recv_scan p s =
     (let s = qca7k_spi_begin s;
          s = qca7k_write_command p True True (ucast QCA7K_REG_RDBUF_BYTE_AVA) s;
          (bytes_available, s) = qca7k_read_register p s;
          s = qca7k_spi_end s
      in if bytes_available = 0 then (QCA7K_EMPTY_READ_BUFFER, s)
         else
          (let s = qca7k_spi_begin s;
               s = qca7k_write_command p True False 0x0000 s;
               s = recv_loop p bytes_available 0 False s;
               s = qca7k_spi_end s
           in (g_state s, s)))"

text \<open>\<^verbatim>\<open>qca7k_recv\<close> (lines 185-303).\<close>

definition qca7k_recv :: "platform \<Rightarrow> addr \<Rightarrow> machine \<Rightarrow> qca7k_state_t \<times> machine" where
  "qca7k_recv p data s =
     (if data = NULL then (QCA7K_NULL_RECV_BUFFER, s)
      else
       (let s = (if g_recv_buf_origin s = NULL \<or> data \<noteq> g_recv_buf_origin s
                    \<or> g_state s = QCA7K_OK \<or> g_state s = QCA7K_INTERNAL_ERROR
                 then qca7k_reset_state_machine data s else s)
        in recv_scan p s))"

section \<open>Observing the bus\<close>

text \<open>The \<open>k\<close>-th byte that the bus will present to \<^verbatim>\<open>qca7k_spi_read\<close> from now on.\<close>

definition bus_byte :: "machine \<Rightarrow> nat \<Rightarrow> u8" where
  "bus_byte s k = (if k < length (miso s) then miso s ! k else miso_idle s)"

text \<open>The value that \<^verbatim>\<open>qca7k_read_register\<close> composes from two bytes read in this order.\<close>

definition register_value :: "platform \<Rightarrow> u8 \<Rightarrow> u8 \<Rightarrow> u16" where
  "register_value p b0 b1 =
     (case host_order p of
        LittleEndian \<Rightarrow> ucast b0 OR push_bit 8 (ucast b1)
      | BigEndian \<Rightarrow> push_bit 8 (ucast b0) OR ucast b1)"

text \<open>The memory after the bytes \<open>xs\<close> have been stored from address \<open>a\<close> upwards.\<close>

primrec store_bytes :: "(addr \<Rightarrow> u8) \<Rightarrow> addr \<Rightarrow> u8 list \<Rightarrow> (addr \<Rightarrow> u8)" where
  "store_bytes m a [] = m"
| "store_bytes m a (x # xs) = store_bytes (m(a := x)) (a + 1) xs"

text \<open>The bytes written in a trace, and the events of its last transaction.\<close>

fun written_bytes :: "spi_event list \<Rightarrow> u8 list" where
  "written_bytes [] = []"
| "written_bytes (SpiWrite b # es) = b # written_bytes es"
| "written_bytes (e # es) = written_bytes es"

definition last_transaction :: "spi_event list \<Rightarrow> spi_event list" where
  "last_transaction tr = rev (takeWhile (\<lambda>e. e \<noteq> SpiBegin) (rev tr))"

text \<open>The frame as \<^verbatim>\<open>qca7k_send\<close> puts it on the wire: the bytes of its last transaction
  after the two bytes of the external-write command.\<close>

definition sent_frame :: "platform \<Rightarrow> addr \<Rightarrow> nat \<Rightarrow> machine \<Rightarrow> u8 list" where
  "sent_frame p data sz s =
     drop 2 (written_bytes (last_transaction (trace (snd (qca7k_send p data sz s)))))"

section \<open>Successive calls of the receiver\<close>

text \<open>
  The receiver is resumable: the bytes of a frame may reach it in several calls of
  \<^verbatim>\<open>qca7k_recv\<close> with the same buffer. \<open>recv_times\<close> is the machine after that many
  calls in a row. For a call that is to find the bytes \<open>c\<close> available, the chip presents
  on the bus the two bytes of the count \<open>length c\<close>, in the order in which
  \<^verbatim>\<open>qca7k_read_register\<close> composes them on the host, and then \<open>c\<close> itself.
\<close>

fun recv_times :: "platform \<Rightarrow> addr \<Rightarrow> nat \<Rightarrow> machine \<Rightarrow> machine" where
  "recv_times p data 0 s = s"
| "recv_times p data (Suc k) s = recv_times p data k (snd (qca7k_recv p data s))"

definition count_bytes :: "platform \<Rightarrow> nat \<Rightarrow> u8 list" where
  "count_bytes p k =
     (case host_order p of
        LittleEndian \<Rightarrow> [of_nat k, of_nat (k div 256)]
      | BigEndian \<Rightarrow> [of_nat (k div 256), of_nat k])"

definition call_bytes :: "platform \<Rightarrow> u8 list \<Rightarrow> u8 list" where
  "call_bytes p c = count_bytes p (length c) @ c"

text \<open>The start of a frame whose length field is zero, with the byte \<open>v\<close> that follows the
  reserved bytes, and the context of a receiver bound to the buffer \<open>data\<close> that has
  taken the first \<open>k\<close> of these bytes, the memory having been \<open>m\<close> before.\<close>

definition zero_frame :: "u8 \<Rightarrow> u8 list" where
  "zero_frame v = [0xAA, 0xAA, 0xAA, 0xAA, 0x00, 0x00, 0x00, 0x00, v]"

definition zero_frame_at ::
  "platform \<Rightarrow> addr \<Rightarrow> u8 \<Rightarrow> (addr \<Rightarrow> u8) \<Rightarrow> nat \<Rightarrow> machine \<Rightarrow> bool" where
  "zero_frame_at p data v m k s =
     (g_recv_buf_origin s = data \<and>
      (if k < 4 then g_state s = QCA7K_READING_SOF \<and> g_state_bytes_left s = 4 - k \<and>
                     g_expected_byte s = QCA7K_SOF \<and> g_fl s = 0 \<and> mem s = m
       else if k = 4 then g_state s = QCA7K_READING_FL \<and> g_state_bytes_left s = 2 \<and>
                     g_fl s = 0 \<and> mem s = m
       else if k = 5 then g_state s = QCA7K_READING_FL \<and> g_state_bytes_left s = 1 \<and>
                     g_fl s = 0 \<and> mem s = m
       else if k = 6 then g_state s = QCA7K_READING_RESERVED \<and> g_state_bytes_left s = 2 \<and>
                     g_expected_byte s = QCA7K_RESERVED \<and> g_fl s = 0 \<and> mem s = m
       else if k = 7 then g_state s = QCA7K_READING_RESERVED \<and> g_state_bytes_left s = 1 \<and>
                     g_expected_byte s = QCA7K_RESERVED \<and> g_fl s = 0 \<and> mem s = m
       else if k = 8 then g_state s = QCA7K_READING_FRAME \<and> g_state_bytes_left s = 0 \<and>
                     g_recv_buf_ptr s = data \<and> mem s = m
       else g_state s = QCA7K_READING_FRAME \<and> g_state_bytes_left s = 2 ^ size_bits p - 1 \<and>
            g_recv_buf_ptr s = data + 1 \<and> mem s = m(data := v)))"

section \<open>Example platforms\<close>

text \<open>A 32-bit little-endian host (\<^verbatim>\<open>int\<close> and \<^verbatim>\<open>size_t\<close> of 32 bits) and an 8-bit
  microcontroller in the style of AVR (\<^verbatim>\<open>int\<close> and \<^verbatim>\<open>size_t\<close> of 16 bits).\<close>

definition ilp32_le :: platform where
  "ilp32_le = \<lparr>host_order = LittleEndian, int_model = Int32, size_model = Size32\<rparr>"

definition avr_le :: platform where
  "avr_le = \<lparr>host_order = LittleEndian, int_model = Int16, size_model = Size16\<rparr>"

section \<open>Example data\<close>

text \<open>A memory that holds the ten payload bytes \<open>01 .. 0A\<close> at addresses 100 to 109 and
  \<open>EE\<close> everywhere else.\<close>

definition example_memory :: "addr \<Rightarrow> u8" where
  "example_memory a = (if 100 \<le> a \<and> a < 110 then of_nat (a - 99) else 0xEE)"

text \<open>A frame on the wire whose length field announces 1536 bytes (\<open>06 00\<close>, most
  significant byte first as the receiver reads it), with the first 1523 bytes of its
  payload.\<close>

definition overlong_frame :: "u8 list" where
  "overlong_frame = [0xAA, 0xAA, 0xAA, 0xAA, 0x06, 0x00, 0x00, 0x00] @ replicate 1523 0x11"

text \<open>A receiver bound to a buffer at address 4096 of a memory of zeros, in a given
  state with a given counter and expected byte, the accumulated length being zero, and
  the bytes the bus will present.\<close>

definition example_receiver :: "qca7k_state_t \<Rightarrow> nat \<Rightarrow> u8 \<Rightarrow> u8 list \<Rightarrow> machine" where
  "example_receiver st left e bytes =
     \<lparr>miso = bytes, miso_idle = 0xFF, trace = [], mem = (\<lambda>a. 0),
      g_state = st, g_recv_buf_origin = 4096, g_recv_buf_ptr = 4096,
      g_state_bytes_left = left, g_expected_byte = e, g_fl = 0, recv_v = 0\<rparr>"

section \<open>Basic facts\<close>

lemma size_bits_ge: "16 \<le> size_bits p"
  by (cases "size_model p") (simp_all add: size_bits_def)

lemma size_mod_id: "(n::nat) < 65536 \<Longrightarrow> n mod 2 ^ size_bits p = n"
proof -
  assume a: "n < 65536"
  have "(2::nat) ^ 16 \<le> 2 ^ size_bits p"
    by (rule power_increasing) (simp_all add: size_bits_ge)
  with a show ?thesis by simp
qed

lemma bus_byte_trace [simp]: "bus_byte (s\<lparr>trace := t\<rparr>) k = bus_byte s k"
  by (simp add: bus_byte_def)

text \<open>Whatever the byte order of the host, a register goes out high byte first.\<close>

lemma write_register_eq:
  "qca7k_write_register p val s =
     s\<lparr>trace := trace s @ [SpiWrite (ucast (drop_bit 8 val)), SpiWrite (ucast val)]\<rparr>"
  by (cases "host_order p")
    (simp_all add: qca7k_write_register_def union_bytes_def qca7k_spi_write_def)

lemma read_register_eq:
  "qca7k_read_register p s =
     (register_value p (bus_byte s 0) (bus_byte s 1),
      s\<lparr>miso := drop 2 (miso s),
        trace := trace s @ [SpiRead (bus_byte s 0), SpiRead (bus_byte s 1)]\<rparr>)"
proof (cases "miso s")
  case Nil
  then show ?thesis
    by (cases "host_order p")
      (simp_all add: qca7k_read_register_def qca7k_spi_read_def register_value_def bus_byte_def)
next
  case (Cons a rest)
  then show ?thesis
    by (cases rest; cases "host_order p")
      (simp_all add: qca7k_read_register_def qca7k_spi_read_def register_value_def bus_byte_def)
qed

lemma write_command_eq:
  "qca7k_write_command p rw inl reg s =
     s\<lparr>trace := trace s @ [SpiWrite (ucast (drop_bit 8 (command_word p rw inl reg))),
                           SpiWrite (ucast (command_word p rw inl reg))]\<rparr>"
  by (simp add: qca7k_write_command_def write_register_eq)

text \<open>The command words the driver itself sends; they do not depend on the platform.\<close>

lemma cmd_words:
  "command_word p True True (ucast QCA7K_REG_INTR_CAUSE) = 0xCC00"
  "command_word p False True (ucast QCA7K_REG_INTR_CAUSE) = 0x4C00"
  "command_word p False True (ucast QCA7K_REG_INTR_ENABLE) = 0x4D00"
  "command_word p True True (ucast QCA7K_REG_WRBUF_SPC_AVA) = 0xC200"
  "command_word p False True (ucast QCA7K_REG_BFR_SIZE) = 0x4100"
  "command_word p True True (ucast QCA7K_REG_RDBUF_BYTE_AVA) = 0xC300"
  "command_word p False False 0x0000 = 0x0000"
  "command_word p True False 0x0000 = 0x8000"
  by (simp_all add: command_word_def shl2_shr2_def QCA7K_REG_INTR_CAUSE_def
      QCA7K_REG_INTR_ENABLE_def QCA7K_REG_WRBUF_SPC_AVA_def QCA7K_REG_BFR_SIZE_def
      QCA7K_REG_RDBUF_BYTE_AVA_def split: int_width.split)

text \<open>The bytes of the commands and of the doubled sentinel patterns, as they go out.\<close>

lemma write_command_bytes:
  "qca7k_write_command p True True (ucast QCA7K_REG_INTR_CAUSE) s =
     s\<lparr>trace := trace s @ [SpiWrite 0xCC, SpiWrite 0x00]\<rparr>"
  "qca7k_write_command p False True (ucast QCA7K_REG_INTR_CAUSE) s =
     s\<lparr>trace := trace s @ [SpiWrite 0x4C, SpiWrite 0x00]\<rparr>"
  "qca7k_write_command p False True (ucast QCA7K_REG_INTR_ENABLE) s =
     s\<lparr>trace := trace s @ [SpiWrite 0x4D, SpiWrite 0x00]\<rparr>"
  "qca7k_write_command p True True (ucast QCA7K_REG_WRBUF_SPC_AVA) s =
     s\<lparr>trace := trace s @ [SpiWrite 0xC2, SpiWrite 0x00]\<rparr>"
  "qca7k_write_command p False True (ucast QCA7K_REG_BFR_SIZE) s =
     s\<lparr>trace := trace s @ [SpiWrite 0x41, SpiWrite 0x00]\<rparr>"
  "qca7k_write_command p True True (ucast QCA7K_REG_RDBUF_BYTE_AVA) s =
     s\<lparr>trace := trace s @ [SpiWrite 0xC3, SpiWrite 0x00]\<rparr>"
  "qca7k_write_command p False False 0x0000 s =
     s\<lparr>trace := trace s @ [SpiWrite 0x00, SpiWrite 0x00]\<rparr>"
  "qca7k_write_command p True False 0x0000 s =
     s\<lparr>trace := trace s @ [SpiWrite 0x80, SpiWrite 0x00]\<rparr>"
  by (simp_all add: write_command_eq cmd_words)

lemma write_sentinel_bytes:
  "qca7k_write_register p (u16_rep QCA7K_SOF) s =
     s\<lparr>trace := trace s @ [SpiWrite 0xAA, SpiWrite 0xAA]\<rparr>"
  "qca7k_write_register p (u16_rep QCA7K_RESERVED) s =
     s\<lparr>trace := trace s @ [SpiWrite 0x00, SpiWrite 0x00]\<rparr>"
  "qca7k_write_register p (u16_rep QCA7K_EOF) s =
     s\<lparr>trace := trace s @ [SpiWrite 0x55, SpiWrite 0x55]\<rparr>"
  by (simp_all add: write_register_eq u16_rep_def QCA7K_SOF_def QCA7K_RESERVED_def QCA7K_EOF_def)

text \<open>Decrementing a \<^verbatim>\<open>size_t\<close>: zero wraps to the largest value.\<close>

lemma dec_wrap: "0 < n \<Longrightarrow> n < m \<Longrightarrow> (n + m - 1) mod m = n - (1::nat)"
proof -
  assume a: "0 < n" and b: "n < m"
  from a have "n + m - 1 = (n - 1) + m" by arith
  then have "(n + m - 1) mod m = (n - 1) mod m" by simp
  with b show ?thesis by simp
qed

lemma size_dec_zero: "size_dec p 0 = 2 ^ size_bits p - 1"
  by (simp add: size_dec_def)

lemma size_dec_pos: "0 < n \<Longrightarrow> n < 2 ^ size_bits p \<Longrightarrow> size_dec p n = n - 1"
  unfolding size_dec_def by (rule dec_wrap)

lemma size_dec_small: "0 < n \<Longrightarrow> n < 65536 \<Longrightarrow> size_dec p n = n - 1"
proof -
  assume a: "0 < n" and b: "n < 65536"
  have "(2::nat) ^ 16 \<le> 2 ^ size_bits p"
    by (rule power_increasing) (simp_all add: size_bits_ge)
  with b have "n < 2 ^ size_bits p" by simp
  with a show ?thesis by (rule size_dec_pos)
qed

lemma size_max_pos: "\<not> 2 ^ size_bits p \<le> Suc 0"
proof -
  have "(2::nat) ^ 16 \<le> 2 ^ size_bits p"
    by (rule power_increasing) (simp_all add: size_bits_ge)
  then show ?thesis by simp
qed

lemma store_bytes_below: "b < a \<Longrightarrow> store_bytes m a xs b = m b"
  by (induction xs arbitrary: m a) simp_all

lemma store_bytes_nth: "k < length xs \<Longrightarrow> store_bytes m a xs (a + k) = xs ! k"
proof (induction xs arbitrary: m a k)
  case Nil
  then show ?case by simp
next
  case (Cons x xs)
  show ?case
  proof (cases k)
    case 0
    then show ?thesis by (simp add: store_bytes_below)
  next
    case (Suc j)
    with Cons.prems have "j < length xs" by simp
    then have "store_bytes (m(a := x)) (a + 1) xs ((a + 1) + j) = xs ! j"
      by (rule Cons.IH)
    with Suc show ?thesis by simp
  qed
qed

section \<open>The command word\<close>

lemma shl2_shr2_int32: "int_model p = Int32 \<Longrightarrow> shl2_shr2 p reg = reg"
proof -
  assume a: "int_model p = Int32"
  have "ucast (drop_bit 2 (push_bit 2 (ucast reg :: u32))) = reg"
    by (rule bit_word_eqI) (auto simp add: bit_simps dest: bit_imp_le_length)
  with a show ?thesis by (simp add: shl2_shr2_def)
qed

lemma shl2_shr2_int16: "int_model p = Int16 \<Longrightarrow> shl2_shr2 p reg = take_bit 14 reg"
proof -
  assume a: "int_model p = Int16"
  have "drop_bit 2 (push_bit 2 reg) = take_bit 14 reg"
    by (rule bit_word_eqI) (auto simp add: bit_simps dest: bit_imp_le_length)
  with a show ?thesis by (simp add: shl2_shr2_def)
qed

text \<open>With a 16-bit \<^verbatim>\<open>int\<close> the command word is the one the header describes: bit 15 is
  \<open>rw\<close>, bit 14 is \<open>inl\<close>, and the low 14 bits are those of \<open>reg\<close> for an internal command
  and zero for an external one.\<close>

lemma command_word_int16:
  "int_model p = Int16 \<Longrightarrow>
   bit (command_word p rw inl reg) n =
     (if n = 15 then rw else if n = 14 then inl else n < 14 \<and> inl \<and> bit reg n)"
  by (auto simp add: command_word_def shl2_shr2_int16 bit_simps dest: bit_imp_le_length)

text \<open>With a 32-bit \<^verbatim>\<open>int\<close> the two shifts of line 307 cancel and bit 15 of \<open>reg\<close> reaches
  the command word.\<close>

lemma command_word_int32:
  "int_model p = Int32 \<Longrightarrow>
   bit (command_word p rw inl reg) n =
     (if n = 15 then rw \<or> (inl \<and> bit reg 15)
      else if n = 14 then inl else n < 14 \<and> inl \<and> bit reg n)"
  by (auto simp add: command_word_def shl2_shr2_int32 bit_simps dest: bit_imp_le_length)

text \<open>An external command never carries an address.\<close>

lemma command_word_external: "command_word p rw False reg = (if rw then 0x8000 else 0x0000)"
  by (simp add: command_word_def)

lemma command_word_avr: "command_word avr_le False True 0x8000 = 0x4000"
  by (simp add: command_word_def shl2_shr2_def avr_le_def)

text \<open>
  Claim C5. The claim is that bit 15 of the command word equals \<open>rw\<close> whatever \<open>reg\<close> is.
  On a host with a 32-bit \<^verbatim>\<open>int\<close> the write command (\<open>rw\<close> false) for the internal
  register \<open>0x8000\<close> is the word \<open>0xC000\<close>, whose bit 15 is set: it is a read command.
\<close>

theorem command_word_bit15_leak:
  "command_word ilp32_le False True 0x8000 = 0xC000 \<and>
   bit (command_word ilp32_le False True 0x8000) 15"
  by (simp add: command_word_def shl2_shr2_def ilp32_le_def bit_simps)

section \<open>Interrupt acknowledgement\<close>

text \<open>
  Claim C8. \<^verbatim>\<open>qca7k_interrupt_reasons\<close> performs three transactions and nothing else:
  it writes 0 to the interrupt-enable register (command \<open>0x4D00\<close>), reads the
  interrupt-cause register once (command \<open>0xCC00\<close>), and writes the value just read back
  to the interrupt-cause register (command \<open>0x4C00\<close>); it returns that value. The only
  write to the interrupt-enable register is the initial one, and no other part of the
  machine changes.
\<close>

theorem interrupt_reasons_protocol:
  "qca7k_interrupt_reasons p s =
     (let r = register_value p (bus_byte s 0) (bus_byte s 1)
      in (r,
          s\<lparr>miso := drop 2 (miso s),
            trace := trace s @
              [SpiBegin, SpiWrite 0x4D, SpiWrite 0x00, SpiWrite 0x00, SpiWrite 0x00, SpiEnd,
               SpiBegin, SpiWrite 0xCC, SpiWrite 0x00,
                 SpiRead (bus_byte s 0), SpiRead (bus_byte s 1), SpiEnd,
               SpiBegin, SpiWrite 0x4C, SpiWrite 0x00,
                 SpiWrite (ucast (drop_bit 8 r)), SpiWrite (ucast r), SpiEnd]\<rparr>))"
  by (simp add: qca7k_interrupt_reasons_def qca7k_interrupts_disable_all_def
      qca7k_interrupts_set_def write_command_eq write_register_eq read_register_eq cmd_words
      qca7k_spi_begin_def qca7k_spi_end_def Let_def)

theorem interrupt_reasons_protocol_witness:
  "qca7k_interrupt_reasons ilp32_le (initial_machine [0x41, 0x02] 0xFF (\<lambda>a. 0)) =
     (0x0241,
      (initial_machine [] 0xFF (\<lambda>a. 0))
        \<lparr>trace :=
           [SpiBegin, SpiWrite 0x4D, SpiWrite 0x00, SpiWrite 0x00, SpiWrite 0x00, SpiEnd,
            SpiBegin, SpiWrite 0xCC, SpiWrite 0x00, SpiRead 0x41, SpiRead 0x02, SpiEnd,
            SpiBegin, SpiWrite 0x4C, SpiWrite 0x00, SpiWrite 0x02, SpiWrite 0x41, SpiEnd]\<rparr>)"
  using interrupt_reasons_protocol [of ilp32_le "initial_machine [0x41, 0x02] 0xFF (\<lambda>a. 0)"]
  by (simp add: initial_machine_def bus_byte_def register_value_def ilp32_le_def)

section \<open>Admission control of the transmitter\<close>

text \<open>
  Claim C6. If \<open>sz\<close> is at most \<open>QCA7K_FRAME_MAX\<close> and the value read from the
  write-space-available register is less than \<open>4 + 2 + 2 + max sz 60 + 2\<close>, then
  \<^verbatim>\<open>qca7k_send\<close> returns \<open>QCA7K_WRITE_BUFFER_INSUFFICIENT\<close>, and all it has done on the bus
  is the space check: one transaction with the two bytes of the command \<open>0xC200\<close> and the
  two bytes read. If \<open>sz\<close> exceeds \<open>QCA7K_FRAME_MAX\<close> it returns \<open>QCA7K_FRAME_OVERFLOW\<close> and
  the machine, bus included, is untouched.
\<close>

theorem send_admission_control:
  "(sz \<le> QCA7K_FRAME_MAX \<and>
    unat (register_value p (bus_byte s 0) (bus_byte s 1)) < 4 + 2 + 2 + max sz 60 + 2 \<longrightarrow>
      qca7k_send p data sz s =
        (QCA7K_WRITE_BUFFER_INSUFFICIENT,
         s\<lparr>miso := drop 2 (miso s),
           trace := trace s @ [SpiBegin, SpiWrite 0xC2, SpiWrite 0x00,
                               SpiRead (bus_byte s 0), SpiRead (bus_byte s 1), SpiEnd]\<rparr>))
   \<and> (sz > QCA7K_FRAME_MAX \<longrightarrow> qca7k_send p data sz s = (QCA7K_FRAME_OVERFLOW, s))"
proof (intro conjI impI)
  assume "sz > QCA7K_FRAME_MAX"
  then show "qca7k_send p data sz s = (QCA7K_FRAME_OVERFLOW, s)"
    by (simp add: qca7k_send_def)
next
  assume a: "sz \<le> QCA7K_FRAME_MAX \<and>
    unat (register_value p (bus_byte s 0) (bus_byte s 1)) < 4 + 2 + 2 + max sz 60 + 2"
  show "qca7k_send p data sz s =
        (QCA7K_WRITE_BUFFER_INSUFFICIENT,
         s\<lparr>miso := drop 2 (miso s),
           trace := trace s @ [SpiBegin, SpiWrite 0xC2, SpiWrite 0x00,
                               SpiRead (bus_byte s 0), SpiRead (bus_byte s 1), SpiEnd]\<rparr>)"
  proof (cases "sz < 60")
    case True
    with a show ?thesis
      by (simp add: qca7k_send_def QCA7K_FRAME_MIN_def QCA7K_FRAME_MAX_def write_command_eq
          read_register_eq cmd_words qca7k_spi_begin_def qca7k_spi_end_def Let_def size_mod_id)
  next
    case False
    with a have "10 + sz < 65536" by (simp add: QCA7K_FRAME_MAX_def)
    then have "(10 + sz) mod 2 ^ size_bits p = 10 + sz" by (rule size_mod_id)
    with a False show ?thesis
      by (simp add: qca7k_send_def QCA7K_FRAME_MIN_def QCA7K_FRAME_MAX_def write_command_eq
          read_register_eq cmd_words qca7k_spi_begin_def qca7k_spi_end_def Let_def max_def)
  qed
qed

theorem send_admission_control_witness:
  "qca7k_send ilp32_le 100 10 (initial_machine [0x45, 0x00] 0xFF (\<lambda>a. 0x11)) =
     (QCA7K_WRITE_BUFFER_INSUFFICIENT,
      (initial_machine [] 0xFF (\<lambda>a. 0x11))
        \<lparr>trace := [SpiBegin, SpiWrite 0xC2, SpiWrite 0x00, SpiRead 0x45, SpiRead 0x00, SpiEnd]\<rparr>)
   \<and> qca7k_send ilp32_le 100 1523 (initial_machine [0xFF, 0xFF] 0xFF (\<lambda>a. 0x11)) =
     (QCA7K_FRAME_OVERFLOW, initial_machine [0xFF, 0xFF] 0xFF (\<lambda>a. 0x11))"
  using send_admission_control
          [of 10 ilp32_le "initial_machine [0x45, 0x00] 0xFF (\<lambda>a. 0x11)" 100]
        send_admission_control
          [of 1523 ilp32_le "initial_machine [0xFF, 0xFF] 0xFF (\<lambda>a. 0x11)" 100]
  by (simp add: initial_machine_def bus_byte_def register_value_def ilp32_le_def
      QCA7K_FRAME_MAX_def)

section \<open>Entry of the receiver\<close>

text \<open>
  Claim C9. Called with a \<open>NULL\<close> buffer, \<^verbatim>\<open>qca7k_recv\<close> returns
  \<open>QCA7K_NULL_RECV_BUFFER\<close> and leaves the whole machine as it was: nothing is added to
  the bus trace, no byte is taken from the bus, and no field of the receive context
  changes. A later call with the buffer of a frame in progress therefore behaves as if
  the \<open>NULL\<close> call had not happened.
\<close>

theorem recv_null_buffer:
  "qca7k_recv p NULL s = (QCA7K_NULL_RECV_BUFFER, s) \<and>
   qca7k_recv p data (snd (qca7k_recv p NULL s)) = qca7k_recv p data s"
  by (simp add: qca7k_recv_def)

theorem recv_null_buffer_witness:
  "qca7k_recv ilp32_le NULL
     ((initial_machine [0x01, 0x00, 0x33] 0xFF (\<lambda>a. 0))
        \<lparr>g_state := QCA7K_READING_FRAME, g_recv_buf_origin := 4096,
          g_recv_buf_ptr := 4100, g_state_bytes_left := 56, g_fl := 60\<rparr>) =
     (QCA7K_NULL_RECV_BUFFER,
      (initial_machine [0x01, 0x00, 0x33] 0xFF (\<lambda>a. 0))
        \<lparr>g_state := QCA7K_READING_FRAME, g_recv_buf_origin := 4096,
          g_recv_buf_ptr := 4100, g_state_bytes_left := 56, g_fl := 60\<rparr>)"
  using recv_null_buffer
    [of ilp32_le
        "(initial_machine [0x01, 0x00, 0x33] 0xFF (\<lambda>a. 0))
           \<lparr>g_state := QCA7K_READING_FRAME, g_recv_buf_origin := 4096,
             g_recv_buf_ptr := 4100, g_state_bytes_left := 56, g_fl := 60\<rparr>"]
  by simp

text \<open>
  Claim C7. Called with a buffer that is not \<open>NULL\<close>, \<^verbatim>\<open>qca7k_recv\<close> first looks at the
  context. If there is no buffer in progress, or the buffer differs from the one in
  progress, or the state is \<open>QCA7K_OK\<close> or \<open>QCA7K_INTERNAL_ERROR\<close>, the scan of the bus
  starts from a fresh context: state \<open>QCA7K_READING_SOF\<close>, origin and write cursor at the
  buffer, four bytes \<open>0xAA\<close> expected, accumulated length zero. Otherwise the scan starts
  from the context as the previous call left it.
\<close>

theorem recv_entry_behaviour:
  "data \<noteq> NULL \<Longrightarrow>
   qca7k_recv p data s =
     recv_scan p
       (if g_recv_buf_origin s = NULL \<or> g_recv_buf_origin s \<noteq> data \<or>
           g_state s = QCA7K_OK \<or> g_state s = QCA7K_INTERNAL_ERROR
        then s\<lparr>g_state := QCA7K_READING_SOF, g_recv_buf_origin := data,
               g_recv_buf_ptr := data, g_state_bytes_left := 4,
               g_expected_byte := 0xAA, g_fl := 0\<rparr>
        else s)"
  by (cases s) (auto simp add: qca7k_recv_def qca7k_reset_state_machine_def QCA7K_SOF_def)

theorem recv_entry_behaviour_witness:
  "(4096::nat) \<noteq> NULL \<and>
   qca7k_recv ilp32_le 4096
     ((initial_machine [0x00, 0x00] 0xFF (\<lambda>a. 0))
        \<lparr>g_state := QCA7K_READING_FRAME, g_recv_buf_origin := 8192,
          g_recv_buf_ptr := 8196, g_state_bytes_left := 56, g_fl := 60\<rparr>) =
     recv_scan ilp32_le
       ((initial_machine [0x00, 0x00] 0xFF (\<lambda>a. 0))\<lparr>g_recv_buf_origin := 4096,
          g_recv_buf_ptr := 4096\<rparr>)
   \<and> qca7k_recv ilp32_le 4096
     ((initial_machine [0x00, 0x00] 0xFF (\<lambda>a. 0))
        \<lparr>g_state := QCA7K_READING_FRAME, g_recv_buf_origin := 4096,
          g_recv_buf_ptr := 4100, g_state_bytes_left := 56, g_fl := 60\<rparr>) =
     recv_scan ilp32_le
       ((initial_machine [0x00, 0x00] 0xFF (\<lambda>a. 0))
        \<lparr>g_state := QCA7K_READING_FRAME, g_recv_buf_origin := 4096,
          g_recv_buf_ptr := 4100, g_state_bytes_left := 56, g_fl := 60\<rparr>)"
  using recv_entry_behaviour
    [of 4096 ilp32_le
        "(initial_machine [0x00, 0x00] 0xFF (\<lambda>a. 0))
           \<lparr>g_state := QCA7K_READING_FRAME, g_recv_buf_origin := 8192,
             g_recv_buf_ptr := 8196, g_state_bytes_left := 56, g_fl := 60\<rparr>"]
    recv_entry_behaviour
    [of 4096 ilp32_le
        "(initial_machine [0x00, 0x00] 0xFF (\<lambda>a. 0))
           \<lparr>g_state := QCA7K_READING_FRAME, g_recv_buf_origin := 4096,
             g_recv_buf_ptr := 4100, g_state_bytes_left := 56, g_fl := 60\<rparr>"]
  by (simp add: initial_machine_def NULL_def QCA7K_SOF_def)

section \<open>The frame on the wire\<close>

lemma send_frame_data_eq:
  "send_frame_data data sz stw i s =
     s\<lparr>trace := trace s @
        map (\<lambda>j. SpiWrite (if j < sz then mem s (data + j) else 0x00)) [i..<stw]\<rparr>"
proof (induction data sz stw i s rule: send_frame_data.induct)
  case (1 data sz stw i s)
  show ?case
  proof (cases "i < stw")
    case True
    with "1.IH" show ?thesis
      by (subst send_frame_data.simps) (simp add: qca7k_spi_write_def upt_conv_Cons)
  next
    case False
    then show ?thesis
      by (subst send_frame_data.simps) simp
  qed
qed

text \<open>
  What \<^verbatim>\<open>qca7k_send\<close> does when the frame fits and the chip has room: the space check,
  the write of \<open>10 + max sz 60\<close> to the buffer-size register, and one external-write
  transaction with four bytes \<open>AA\<close>, two bytes \<open>00\<close>, the padded payload and two bytes
  \<open>55\<close>. The transaction carries \<open>8 + max sz 60\<close> bytes: the two bytes of the length
  field, which the announced size counts, are not among them.
\<close>

lemma qca7k_send_ok:
  assumes sz: "sz \<le> QCA7K_FRAME_MAX"
    and space: "\<not> unat (register_value p (bus_byte s 0) (bus_byte s 1)) < 10 + max sz 60"
  shows "qca7k_send p data sz s =
     (QCA7K_OK,
      s\<lparr>miso := drop 2 (miso s),
        trace := trace s @
          [SpiBegin, SpiWrite 0xC2, SpiWrite 0x00,
             SpiRead (bus_byte s 0), SpiRead (bus_byte s 1), SpiEnd,
           SpiBegin, SpiWrite 0x41, SpiWrite 0x00,
             SpiWrite (ucast (drop_bit 8 (of_nat (10 + max sz 60) :: u16))),
             SpiWrite (ucast (of_nat (10 + max sz 60) :: u16)), SpiEnd,
           SpiBegin, SpiWrite 0x00, SpiWrite 0x00,
             SpiWrite 0xAA, SpiWrite 0xAA, SpiWrite 0xAA, SpiWrite 0xAA,
             SpiWrite 0x00, SpiWrite 0x00] @
          map (\<lambda>j. SpiWrite (if j < sz then mem s (data + j) else 0x00)) [0..<max sz 60] @
          [SpiWrite 0x55, SpiWrite 0x55, SpiEnd]\<rparr>)"
proof -
  have n: "(4 + 2 + 2 + max sz 60 + 2) mod 2 ^ size_bits p = 10 + max sz 60"
    using sz by (simp add: QCA7K_FRAME_MAX_def size_mod_id)
  have e: "(if sz < QCA7K_FRAME_MIN then QCA7K_FRAME_MIN else sz) = max sz 60"
    by (simp add: max_def QCA7K_FRAME_MIN_def)
  from sz have "\<not> QCA7K_FRAME_MAX < sz" by simp
  then show ?thesis
    unfolding qca7k_send_def Let_def e n write_command_bytes write_sentinel_bytes
    unfolding write_register_eq read_register_eq send_frame_data_eq
    using space
    by (simp add: qca7k_spi_begin_def qca7k_spi_end_def cong: if_cong
        del: max.absorb1 max.absorb2 max.absorb3 max.absorb4 max.bounded_iff)
qed

lemmas send_eval = qca7k_send_def send_frame_data.simps qca7k_spi_write_def qca7k_spi_begin_def
  qca7k_spi_end_def write_command_bytes write_register_eq read_register_eq u16_rep_def
  bus_byte_def register_value_def size_bits_def initial_machine_def QCA7K_FRAME_MAX_def
  QCA7K_FRAME_MIN_def QCA7K_SOF_def QCA7K_RESERVED_def QCA7K_EOF_def example_memory_def Let_def

text \<open>
  Claim C1. The claim is that a 10-byte payload goes out as
  \<open>AA AA AA AA | 3C 00 | 00 00 | payload, 50 zero bytes | 55 55\<close> after a buffer-size
  write of 70. On the 32-bit little-endian host, with 70 bytes of write space reported,
  \<^verbatim>\<open>qca7k_send\<close> of the payload \<open>01 .. 0A\<close> returns \<open>QCA7K_OK\<close> and its whole bus traffic is:
  the space check, the buffer-size write of 70 (\<open>00 46\<close>), and an external-write
  transaction of \<open>AA AA AA AA | 00 00 | 01 .. 0A, 50 zero bytes | 55 55\<close>. The length
  field \<open>3C 00\<close> is not written: 68 bytes are streamed where 70 were announced.
\<close>

theorem send_ten_bytes_wire:
  "qca7k_send ilp32_le 100 10 (initial_machine [0x46, 0x00] 0xFF example_memory) =
     (QCA7K_OK,
      (initial_machine [] 0xFF example_memory)
        \<lparr>trace :=
           [SpiBegin, SpiWrite 0xC2, SpiWrite 0x00, SpiRead 0x46, SpiRead 0x00, SpiEnd,
            SpiBegin, SpiWrite 0x41, SpiWrite 0x00, SpiWrite 0x00, SpiWrite 0x46, SpiEnd,
            SpiBegin, SpiWrite 0x00, SpiWrite 0x00] @
           map SpiWrite
             [0xAA, 0xAA, 0xAA, 0xAA,
              0x00, 0x00,
              0x01, 0x02, 0x03, 0x04, 0x05, 0x06, 0x07, 0x08, 0x09, 0x0A,
              0x00, 0x00, 0x00, 0x00, 0x00, 0x00, 0x00, 0x00, 0x00, 0x00,
              0x00, 0x00, 0x00, 0x00, 0x00, 0x00, 0x00, 0x00, 0x00, 0x00,
              0x00, 0x00, 0x00, 0x00, 0x00, 0x00, 0x00, 0x00, 0x00, 0x00,
              0x00, 0x00, 0x00, 0x00, 0x00, 0x00, 0x00, 0x00, 0x00, 0x00,
              0x00, 0x00, 0x00, 0x00, 0x00, 0x00, 0x00, 0x00, 0x00, 0x00,
              0x55, 0x55] @
           [SpiEnd]\<rparr>)"
  by (simp add: send_eval ilp32_le_def)

lemma sent_frame_example:
  "sent_frame ilp32_le 100 10 (initial_machine [0x46, 0x00] 0xFF example_memory) =
     [0xAA, 0xAA, 0xAA, 0xAA,
      0x00, 0x00,
      0x01, 0x02, 0x03, 0x04, 0x05, 0x06, 0x07, 0x08, 0x09, 0x0A,
      0x00, 0x00, 0x00, 0x00, 0x00, 0x00, 0x00, 0x00, 0x00, 0x00,
      0x00, 0x00, 0x00, 0x00, 0x00, 0x00, 0x00, 0x00, 0x00, 0x00,
      0x00, 0x00, 0x00, 0x00, 0x00, 0x00, 0x00, 0x00, 0x00, 0x00,
      0x00, 0x00, 0x00, 0x00, 0x00, 0x00, 0x00, 0x00, 0x00, 0x00,
      0x00, 0x00, 0x00, 0x00, 0x00, 0x00, 0x00, 0x00, 0x00, 0x00,
      0x55, 0x55]"
  by (simp add: sent_frame_def last_transaction_def send_eval ilp32_le_def)

section \<open>The receive loop\<close>

lemma recv_loop_stop: "\<not> i < unat n \<Longrightarrow> recv_loop p n i r s = s"
  by (subst recv_loop.simps) simp

text \<open>One pass of the loop when a byte is waiting on the bus.\<close>

lemma recv_loop_read:
  "i < unat n \<Longrightarrow> miso s \<noteq> [] \<Longrightarrow>
   recv_loop p n i False s =
     (case recv_byte p (hd (miso s))
             (s\<lparr>miso := tl (miso s), trace := trace s @ [SpiRead (hd (miso s))],
                recv_v := hd (miso s)\<rparr>) of
        (NextByte, s2) \<Rightarrow> recv_loop p n (i + 1) False s2
      | (RetryByte, s2) \<Rightarrow> recv_loop p n (size_inc p (size_dec p i)) True s2
      | (Done, s2) \<Rightarrow> s2)"
  by (subst recv_loop.simps) (cases "miso s"; simp add: fetch_byte_def qca7k_spi_read_def)

text \<open>From a fresh context, the eight bytes of a frame header lead to the frame stage;
  the first byte of the length field is the more significant one.\<close>

lemma recv_loop_header:
  assumes st: "g_state s = QCA7K_READING_SOF" "g_state_bytes_left s = 4"
      "g_expected_byte s = QCA7K_SOF" "g_fl s = 0"
    and bus: "miso s = 0xAA # 0xAA # 0xAA # 0xAA # hi # lo # 0x00 # 0x00 # rest"
    and avail: "i + 8 \<le> unat n"
  shows "recv_loop p n i False s =
     recv_loop p n (i + 8) False
       (s\<lparr>miso := rest,
          trace := trace s @ map SpiRead [0xAA, 0xAA, 0xAA, 0xAA, hi, lo, 0x00, 0x00],
          g_state := QCA7K_READING_FRAME,
          g_recv_buf_ptr := g_recv_buf_origin s,
          g_state_bytes_left := unat (push_bit 8 (ucast hi) OR ucast lo :: u16),
          g_expected_byte := QCA7K_RESERVED,
          g_fl := push_bit 8 (ucast hi) OR ucast lo,
          recv_v := 0x00\<rparr>)"
proof -
  have e: "i + 8 = Suc (Suc (Suc (Suc (Suc (Suc (Suc (Suc i)))))))" by simp
  show ?thesis
    unfolding e using st bus avail
    by (cases s) (simp add: recv_loop_read recv_byte_def sentinel_byte_def stage_end_def
        size_dec_small QCA7K_SOF_def QCA7K_RESERVED_def Let_def)
qed

text \<open>In the frame stage every byte is stored at the write cursor, which moves on by
  one; nothing compares the cursor with the end of the buffer.\<close>

lemma recv_loop_frame_copy:
  "g_state s = QCA7K_READING_FRAME \<Longrightarrow> miso s = xs @ rest \<Longrightarrow>
   length xs < g_state_bytes_left s \<Longrightarrow> g_state_bytes_left s < 2 ^ size_bits p \<Longrightarrow>
   i + length xs \<le> unat n \<Longrightarrow>
   recv_loop p n i False s =
     recv_loop p n (i + length xs) False
       (s\<lparr>miso := rest,
          trace := trace s @ map SpiRead xs,
          mem := store_bytes (mem s) (g_recv_buf_ptr s) xs,
          g_recv_buf_ptr := g_recv_buf_ptr s + length xs,
          g_state_bytes_left := g_state_bytes_left s - length xs,
          recv_v := last (recv_v s # xs)\<rparr>)"
proof (induction xs arbitrary: s i)
  case Nil
  then show ?case by (cases s) simp
next
  case (Cons x xs)
  define s' where "s' = s\<lparr>miso := xs @ rest, trace := trace s @ [SpiRead x],
      mem := (mem s)(g_recv_buf_ptr s := x), g_recv_buf_ptr := g_recv_buf_ptr s + 1,
      g_state_bytes_left := g_state_bytes_left s - 1, recv_v := x\<rparr>"
  have dec: "size_dec p (g_state_bytes_left s) = g_state_bytes_left s - 1"
    using Cons.prems by (intro size_dec_pos) simp_all
  have step: "recv_loop p n i False s = recv_loop p n (Suc i) False s'"
    using Cons.prems dec
    by (cases s) (simp add: recv_loop_read recv_byte_def stage_end_def s'_def Let_def)
  have "recv_loop p n (Suc i) False s' =
     recv_loop p n (Suc i + length xs) False
       (s'\<lparr>miso := rest,
          trace := trace s' @ map SpiRead xs,
          mem := store_bytes (mem s') (g_recv_buf_ptr s') xs,
          g_recv_buf_ptr := g_recv_buf_ptr s' + length xs,
          g_state_bytes_left := g_state_bytes_left s' - length xs,
          recv_v := last (recv_v s' # xs)\<rparr>)"
    using Cons.prems by (intro Cons.IH) (simp_all add: s'_def)
  with step show ?case
    by (cases s) (simp add: s'_def)
qed

lemmas recv_eval = qca7k_recv_def recv_scan_def recv_loop.simps fetch_byte_def recv_byte_def
  sentinel_byte_def stage_end_def qca7k_reset_state_machine_def qca7k_spi_begin_def
  qca7k_spi_end_def qca7k_spi_read_def write_command_bytes read_register_eq bus_byte_def
  register_value_def size_dec_def size_bits_def initial_machine_def NULL_def QCA7K_SOF_def
  QCA7K_RESERVED_def QCA7K_EOF_def Let_def

section \<open>A frame of length zero\<close>

text \<open>The five bytes \<open>00 00 00 00 v\<close> after the start of frame, taken in one run of the
  loop.\<close>

lemma zero_length_frame_single_run:
  assumes st: "g_state s = QCA7K_READING_FL" "g_state_bytes_left s = 2" "g_fl s = 0"
    and bus: "miso s = 0x00 # 0x00 # 0x00 # 0x00 # v # rest"
    and avail: "i + 5 \<le> unat n"
  shows "recv_loop p n i False s =
     recv_loop p n (i + 5) False
       (s\<lparr>miso := rest,
          trace := trace s @ [SpiRead 0x00, SpiRead 0x00, SpiRead 0x00, SpiRead 0x00, SpiRead v],
          mem := (mem s)(g_recv_buf_origin s := v),
          g_state := QCA7K_READING_FRAME,
          g_recv_buf_ptr := g_recv_buf_origin s + 1,
          g_state_bytes_left := 2 ^ size_bits p - 1,
          g_expected_byte := QCA7K_RESERVED,
          g_fl := 0,
          recv_v := v\<rparr>)"
proof -
  have e: "i + 5 = Suc (Suc (Suc (Suc (Suc i))))" by simp
  show ?thesis
    unfolding e using st bus avail
    by (cases s) (simp add: recv_loop_read recv_byte_def sentinel_byte_def stage_end_def
        size_dec_small size_dec_zero size_max_pos QCA7K_RESERVED_def Let_def)
qed

text \<open>A call that goes on with the frame in progress runs the loop from the context as
  the last call left it.\<close>

lemma recv_resume:
  assumes "data \<noteq> NULL" "g_recv_buf_origin s = data" "g_state s \<noteq> QCA7K_OK"
    "g_state s \<noteq> QCA7K_INTERNAL_ERROR" "register_value p (bus_byte s 0) (bus_byte s 1) = n"
    "n \<noteq> 0"
  shows "qca7k_recv p data s =
     (let s1 = recv_loop p n 0 False
                 (s\<lparr>miso := drop 2 (miso s),
                    trace := trace s @
                      [SpiBegin, SpiWrite 0xC3, SpiWrite 0x00,
                       SpiRead (bus_byte s 0), SpiRead (bus_byte s 1), SpiEnd,
                       SpiBegin, SpiWrite 0x80, SpiWrite 0x00]\<rparr>)
      in (g_state s1, s1\<lparr>trace := trace s1 @ [SpiEnd]\<rparr>))"
  using assms
  by (auto simp add: qca7k_recv_def recv_scan_def write_command_bytes read_register_eq
      qca7k_spi_begin_def qca7k_spi_end_def Let_def)

text \<open>The bytes of \<open>zero_frame v\<close> one at a time, in one run of the loop, in one call, and
  in any number of calls: each step leads from the context after \<open>j\<close> bytes to the
  context after the bytes it has taken.\<close>

lemma zero_frame_at_bus [simp]:
  "zero_frame_at p data v m k (s\<lparr>miso := bs\<rparr>) = zero_frame_at p data v m k s"
  "zero_frame_at p data v m k (s\<lparr>trace := tr\<rparr>) = zero_frame_at p data v m k s"
  "zero_frame_at p data v m k (s\<lparr>recv_v := rv\<rparr>) = zero_frame_at p data v m k s"
  by (simp_all add: zero_frame_at_def)

lemma below_nine:
  "k < 9 \<Longrightarrow> k = 0 \<or> k = 1 \<or> k = 2 \<or> k = 3 \<or> k = 4 \<or> k = 5 \<or> k = 6 \<or> k = 7 \<or> k = (8::nat)"
  by arith

lemma zero_frame_byte:
  assumes "zero_frame_at p data v m k s" "k < 9"
  shows "\<exists>t. recv_byte p (zero_frame v ! k) s = (NextByte, t) \<and>
             zero_frame_at p data v m (Suc k) t \<and> miso t = miso s"
proof -
  from assms(2)
  have "k = 0 \<or> k = 1 \<or> k = 2 \<or> k = 3 \<or> k = 4 \<or> k = 5 \<or> k = 6 \<or> k = 7 \<or> k = 8"
    by (rule below_nine)
  then show ?thesis
    using assms(1)
    by (cases s)
      (auto simp add: zero_frame_at_def zero_frame_def recv_byte_def sentinel_byte_def
        stage_end_def size_dec_small size_dec_zero size_max_pos QCA7K_SOF_def
        QCA7K_RESERVED_def Let_def)
qed

lemma zero_frame_run:
  "zero_frame_at p data v m j s \<Longrightarrow> miso s = c @ rest \<Longrightarrow>
   c = take (length c) (drop j (zero_frame v)) \<Longrightarrow> j + length c \<le> 9 \<Longrightarrow>
   i + length c \<le> unat n \<Longrightarrow>
   \<exists>t. recv_loop p n i False s = recv_loop p n (i + length c) False t \<and>
       zero_frame_at p data v m (j + length c) t \<and> miso t = rest"
proof (induction c arbitrary: j s i)
  case Nil
  then show ?case by auto
next
  case (Cons x c)
  let ?z = "zero_frame v"
  let ?s1 = "s\<lparr>miso := c @ rest, trace := trace s @ [SpiRead x], recv_v := x\<rparr>"
  from Cons.prems(4) have j: "j < 9" by simp
  then have d: "drop j ?z = ?z ! j # drop (Suc j) ?z"
    by (intro Cons_nth_drop_Suc [symmetric]) (simp add: zero_frame_def)
  from Cons.prems(3) have "x # c = take (Suc (length c)) (?z ! j # drop (Suc j) ?z)"
    by (simp only: d length_Cons)
  then have x: "x = ?z ! j" and c: "c = take (length c) (drop (Suc j) ?z)"
    by simp_all
  from Cons.prems(1) have "zero_frame_at p data v m j ?s1" by simp
  from zero_frame_byte [OF this j] obtain t1 where
    t1: "recv_byte p (?z ! j) ?s1 = (NextByte, t1)" "zero_frame_at p data v m (Suc j) t1"
      "miso t1 = miso ?s1"
    by blast
  from Cons.prems(5) have i: "i < unat n" by simp
  have step: "recv_loop p n i False s = recv_loop p n (i + 1) False t1"
    using i Cons.prems(2) t1(1) x by (simp add: recv_loop_read)
  from t1(3) have m1: "miso t1 = c @ rest" by simp
  from Cons.prems(4) have b1: "Suc j + length c \<le> 9" by simp
  from Cons.prems(5) have b2: "(i + 1) + length c \<le> unat n" by simp
  from Cons.IH [OF t1(2) m1 c b1 b2] obtain t where
    "recv_loop p n (i + 1) False t1 = recv_loop p n (i + 1 + length c) False t"
    "zero_frame_at p data v m (Suc j + length c) t" "miso t = rest"
    by blast
  with step show ?case by auto
qed

lemma count_bytes_value:
  "k \<le> 9 \<Longrightarrow> register_value p (count_bytes p k ! 0) (count_bytes p k ! 1) = of_nat k"
proof -
  assume "k \<le> 9"
  then have "k = 0 \<or> k = 1 \<or> k = 2 \<or> k = 3 \<or> k = 4 \<or> k = 5 \<or> k = 6 \<or> k = 7 \<or>
      k = 8 \<or> k = 9" by arith
  then show ?thesis
    by (cases "host_order p") (auto simp add: register_value_def count_bytes_def)
qed

lemma zero_frame_call:
  assumes at: "zero_frame_at p data v m j s" and data: "data \<noteq> NULL"
    and bus: "miso s = call_bytes p c @ rest"
    and c: "c = take (length c) (drop j (zero_frame v))"
    and len: "j + length c \<le> 9"
  shows "zero_frame_at p data v m (j + length c) (snd (qca7k_recv p data s)) \<and>
         miso (snd (qca7k_recv p data s)) = rest"
proof -
  let ?n = "of_nat (length c) :: u16"
  let ?s1 = "s\<lparr>miso := c @ rest,
      trace := trace s @
        [SpiBegin, SpiWrite 0xC3, SpiWrite 0x00,
         SpiRead (bus_byte s 0), SpiRead (bus_byte s 1), SpiEnd,
         SpiBegin, SpiWrite 0x80, SpiWrite 0x00]\<rparr>"
  from len have l9: "length c \<le> 9" by simp
  have cb: "length (count_bytes p (length c)) = 2"
    by (cases "host_order p") (simp_all add: count_bytes_def)
  from bus cb have b01: "bus_byte s 0 = count_bytes p (length c) ! 0"
      "bus_byte s 1 = count_bytes p (length c) ! 1"
    by (simp_all add: bus_byte_def call_bytes_def nth_append)
  have rv: "register_value p (bus_byte s 0) (bus_byte s 1) = ?n"
    using count_bytes_value [OF l9, of p] b01 by simp
  from bus cb have dr: "drop 2 (miso s) = c @ rest"
    by (simp add: call_bytes_def)
  from l9 have un: "unat ?n = length c"
    by (simp add: unat_of_nat)
  from at have keep: "g_recv_buf_origin s = data" "g_state s \<noteq> QCA7K_OK"
      "g_state s \<noteq> QCA7K_INTERNAL_ERROR"
    by (auto simp add: zero_frame_at_def split: if_splits)
  show ?thesis
  proof (cases "length c = 0")
    case True
    with keep data rv dr at show ?thesis
      by (simp add: qca7k_recv_def recv_scan_def write_command_bytes read_register_eq
          qca7k_spi_begin_def qca7k_spi_end_def Let_def)
  next
    case False
    with un l9 have n0: "?n \<noteq> 0" by auto
    have call: "qca7k_recv p data s =
        (g_state (recv_loop p ?n 0 False ?s1),
         (recv_loop p ?n 0 False ?s1)\<lparr>trace := trace (recv_loop p ?n 0 False ?s1) @ [SpiEnd]\<rparr>)"
      using keep data rv dr n0
      by (simp add: qca7k_recv_def recv_scan_def write_command_bytes read_register_eq
          qca7k_spi_begin_def qca7k_spi_end_def Let_def)
    from at have at1: "zero_frame_at p data v m j ?s1" by simp
    have m1: "miso ?s1 = c @ rest" by simp
    from un have av: "0 + length c \<le> unat ?n" by simp
    from zero_frame_run [OF at1 m1 c len av] obtain t where
      t: "recv_loop p ?n 0 False ?s1 = recv_loop p ?n (0 + length c) False t"
        "zero_frame_at p data v m (j + length c) t" "miso t = rest"
      by blast
    from un have "recv_loop p ?n (0 + length c) False t = t"
      by (intro recv_loop_stop) simp
    with t have "recv_loop p ?n 0 False ?s1 = t" by simp
    with call t show ?thesis by simp
  qed
qed

lemma zero_frame_calls:
  "zero_frame_at p data v m j s \<Longrightarrow> data \<noteq> NULL \<Longrightarrow>
   miso s = concat (map (call_bytes p) cs) @ rest \<Longrightarrow>
   concat cs = take (k - j) (drop j (zero_frame v)) \<Longrightarrow> j \<le> k \<Longrightarrow> k \<le> 9 \<Longrightarrow>
   zero_frame_at p data v m k (recv_times p data (length cs) s) \<and>
   miso (recv_times p data (length cs) s) = rest"
proof (induction cs arbitrary: j s)
  case Nil
  then have "k = j" by (auto simp add: take_eq_Nil zero_frame_def)
  with Nil show ?case by simp
next
  case (Cons c cs)
  let ?z = "zero_frame v"
  let ?s1 = "snd (qca7k_recv p data s)"
  have lz: "length ?z = 9" by (simp add: zero_frame_def)
  from Cons.prems(4) have app: "c @ concat cs = take (k - j) (drop j ?z)" by simp
  then have c1: "c = take (length c) (take (k - j) (drop j ?z))"
    and cs1: "concat cs = drop (length c) (take (k - j) (drop j ?z))"
    by (simp_all add: append_eq_conv_conj)
  from app have "length c + length (concat cs) = length (take (k - j) (drop j ?z))"
    by (metis length_append)
  with Cons.prems(5,6) lz have lc: "length c \<le> k - j" by simp
  with c1 have c: "c = take (length c) (drop j ?z)" by (simp add: min_def)
  from cs1 lc have cs: "concat cs = take (k - (j + length c)) (drop (j + length c) ?z)"
    by (simp add: drop_take add.commute)
  from lc Cons.prems(5,6) have len: "j + length c \<le> 9" "j + length c \<le> k" by simp_all
  from Cons.prems(3) have bus: "miso s = call_bytes p c @ (concat (map (call_bytes p) cs) @ rest)"
    by simp
  from zero_frame_call [OF Cons.prems(1) Cons.prems(2) bus c len(1)]
  have at1: "zero_frame_at p data v m (j + length c) ?s1"
    and m1: "miso ?s1 = concat (map (call_bytes p) cs) @ rest"
    by simp_all
  from Cons.IH [OF at1 Cons.prems(2) m1 cs len(2) Cons.prems(6)]
  show ?case by simp
qed

text \<open>A call of a receiver that is bound to another buffer or to none, or whose last
  call ended a frame or failed, starts from the reset context.\<close>

lemma recv_fresh:
  "data \<noteq> NULL \<Longrightarrow>
   g_recv_buf_origin s \<noteq> data \<or> g_state s = QCA7K_OK \<or> g_state s = QCA7K_INTERNAL_ERROR \<Longrightarrow>
   qca7k_recv p data s = qca7k_recv p data (qca7k_reset_state_machine data s)"
  by (auto simp add: qca7k_recv_def qca7k_reset_state_machine_def)

text \<open>
  Claim C10. The receiver takes one byte per pass of its loop, and a call that is given
  the buffer of a frame in progress goes on from the context the last call left. The
  theorem follows a stream whose length field is \<open>00 00\<close>, byte by byte and call by call.
  \<^item> Parts 1 to 5, one byte each, for every machine in the state named, in whichever call
    and at whichever position of the loop the byte arrives. Length field: from
    \<open>QCA7K_READING_FL\<close> with two bytes to go and accumulated length zero, the first \<open>00\<close>
    leaves one byte to go and the second \<open>00\<close> leads to \<open>QCA7K_READING_RESERVED\<close>.
    Reserved bytes: the first \<open>00\<close> leaves one byte to go; the second \<open>00\<close>, the
    accumulated length being zero, leads to \<open>QCA7K_READING_FRAME\<close> with the write cursor
    at the origin and a counter of 0, and the counter is not tested. Next byte: in
    \<open>QCA7K_READING_FRAME\<close> with a counter of 0, any byte \<open>v\<close> is stored at the write
    cursor, the cursor moves on by one, and the decrement wraps the counter to
    \<open>2 ^ size_bits p - 1\<close>, the largest \<^verbatim>\<open>size_t\<close>; the state is still
    \<open>QCA7K_READING_FRAME\<close>, not \<open>QCA7K_READING_EOF\<close>.
  \<^item> Parts 6 to 8, the loop and the call around the bytes. A pass of the loop with a
    byte \<open>b\<close> waiting on the bus reads \<open>b\<close> and does to the context what \<open>recv_byte\<close>
    does for \<open>b\<close>; when the available bytes are used up the loop returns the machine as
    it is; a call with the buffer in progress, in a state other than \<open>QCA7K_OK\<close> and
    \<open>QCA7K_INTERNAL_ERROR\<close>, with \<open>n > 0\<close> bytes available, runs the loop for \<open>n\<close> bytes
    from the context as it stands and returns the state reached.
  \<^item> Parts 9 and 10, any division among calls, from the length stage. Let the
    receiver be in \<open>QCA7K_READING_FL\<close> with two bytes to go and accumulated length zero,
    and let the bytes reach it in the chunks \<open>cs\<close>, one call of \<^verbatim>\<open>qca7k_recv\<close> per chunk
    (a chunk may be empty: a call that finds nothing available). If the chunks together
    are \<open>00 00 00 00\<close>, the receiver ends in \<open>QCA7K_READING_FRAME\<close> with a counter of 0
    and the cursor at the origin, the memory untouched. If they are \<open>00 00 00 00 v\<close>, it
    ends in \<open>QCA7K_READING_FRAME\<close> with \<open>v\<close> stored at the origin, the cursor one byte
    on, and a counter of \<open>2 ^ size_bits p - 1\<close>.
  \<^item> Parts 11 and 12, the same from the start of a frame, for any division of
    \<open>AA AA AA AA 00 00 00 00\<close> and of \<open>AA AA AA AA 00 00 00 00 v\<close> among calls. The
    receiver is at the start of a frame when its first call resets the context (it is
    bound to another buffer or to none, or its state is \<open>QCA7K_OK\<close> or
    \<open>QCA7K_INTERNAL_ERROR\<close>), or when it is in the reset context already.
  \<^item> Part 13, the five bytes \<open>00 00 00 00 v\<close> in one run of the loop, which may go on
    with further bytes.
\<close>

theorem zero_length_frame_wraps:
  "(g_state s = QCA7K_READING_FL \<and> g_state_bytes_left s = 2 \<and> g_fl s = 0 \<longrightarrow>
      recv_byte p 0x00 s = (NextByte, s\<lparr>g_state_bytes_left := 1\<rparr>)) \<and>
   (g_state s = QCA7K_READING_FL \<and> g_state_bytes_left s = 1 \<and> g_fl s = 0 \<longrightarrow>
      recv_byte p 0x00 s =
        (NextByte, s\<lparr>g_state := QCA7K_READING_RESERVED, g_state_bytes_left := 2,
                     g_expected_byte := QCA7K_RESERVED\<rparr>)) \<and>
   (g_state s = QCA7K_READING_RESERVED \<and> g_state_bytes_left s = 2 \<and>
    g_expected_byte s = QCA7K_RESERVED \<longrightarrow>
      recv_byte p 0x00 s = (NextByte, s\<lparr>g_state_bytes_left := 1\<rparr>)) \<and>
   (g_state s = QCA7K_READING_RESERVED \<and> g_state_bytes_left s = 1 \<and>
    g_expected_byte s = QCA7K_RESERVED \<and> g_fl s = 0 \<longrightarrow>
      recv_byte p 0x00 s =
        (NextByte, s\<lparr>g_state := QCA7K_READING_FRAME,
                     g_recv_buf_ptr := g_recv_buf_origin s,
                     g_state_bytes_left := 0\<rparr>)) \<and>
   (g_state s = QCA7K_READING_FRAME \<and> g_state_bytes_left s = 0 \<longrightarrow>
      recv_byte p v s =
        (NextByte, s\<lparr>mem := (mem s)(g_recv_buf_ptr s := v),
                     g_recv_buf_ptr := g_recv_buf_ptr s + 1,
                     g_state_bytes_left := 2 ^ size_bits p - 1\<rparr>) \<and>
      g_state (snd (recv_byte p v s)) = QCA7K_READING_FRAME \<and>
      g_state (snd (recv_byte p v s)) \<noteq> QCA7K_READING_EOF) \<and>
   (i < unat n \<and> miso s = b # bs \<and>
    recv_byte p b (s\<lparr>miso := bs, trace := trace s @ [SpiRead b], recv_v := b\<rparr>) =
      (NextByte, s') \<longrightarrow>
      recv_loop p n i False s = recv_loop p n (i + 1) False s') \<and>
   (\<not> i < unat n \<longrightarrow> recv_loop p n i False s = s) \<and>
   (data \<noteq> NULL \<and> g_recv_buf_origin s = data \<and> g_state s \<noteq> QCA7K_OK \<and>
    g_state s \<noteq> QCA7K_INTERNAL_ERROR \<and>
    register_value p (bus_byte s 0) (bus_byte s 1) = n \<and> n \<noteq> 0 \<longrightarrow>
      qca7k_recv p data s =
        (let s1 = recv_loop p n 0 False
                    (s\<lparr>miso := drop 2 (miso s),
                       trace := trace s @
                         [SpiBegin, SpiWrite 0xC3, SpiWrite 0x00,
                          SpiRead (bus_byte s 0), SpiRead (bus_byte s 1), SpiEnd,
                          SpiBegin, SpiWrite 0x80, SpiWrite 0x00]\<rparr>)
         in (g_state s1, s1\<lparr>trace := trace s1 @ [SpiEnd]\<rparr>))) \<and>
   (data \<noteq> NULL \<and> g_recv_buf_origin s = data \<and> g_state s = QCA7K_READING_FL \<and>
    g_state_bytes_left s = 2 \<and> g_fl s = 0 \<and>
    miso s = concat (map (call_bytes p) cs) @ rest \<and>
    concat cs = [0x00, 0x00, 0x00, 0x00] \<longrightarrow>
      g_state (recv_times p data (length cs) s) = QCA7K_READING_FRAME \<and>
      g_state_bytes_left (recv_times p data (length cs) s) = 0 \<and>
      g_recv_buf_origin (recv_times p data (length cs) s) = data \<and>
      g_recv_buf_ptr (recv_times p data (length cs) s) = data \<and>
      mem (recv_times p data (length cs) s) = mem s \<and>
      miso (recv_times p data (length cs) s) = rest) \<and>
   (data \<noteq> NULL \<and> g_recv_buf_origin s = data \<and> g_state s = QCA7K_READING_FL \<and>
    g_state_bytes_left s = 2 \<and> g_fl s = 0 \<and>
    miso s = concat (map (call_bytes p) cs) @ rest \<and>
    concat cs = [0x00, 0x00, 0x00, 0x00, v] \<longrightarrow>
      g_state (recv_times p data (length cs) s) = QCA7K_READING_FRAME \<and>
      g_state_bytes_left (recv_times p data (length cs) s) = 2 ^ size_bits p - 1 \<and>
      g_recv_buf_origin (recv_times p data (length cs) s) = data \<and>
      g_recv_buf_ptr (recv_times p data (length cs) s) = data + 1 \<and>
      mem (recv_times p data (length cs) s) = (mem s)(data := v) \<and>
      miso (recv_times p data (length cs) s) = rest) \<and>
   (data \<noteq> NULL \<and>
    (g_recv_buf_origin s \<noteq> data \<or> g_state s = QCA7K_OK \<or>
     g_state s = QCA7K_INTERNAL_ERROR \<or>
     g_state s = QCA7K_READING_SOF \<and> g_state_bytes_left s = 4 \<and>
     g_expected_byte s = QCA7K_SOF \<and> g_fl s = 0) \<and>
    miso s = concat (map (call_bytes p) cs) @ rest \<and>
    concat cs = [0xAA, 0xAA, 0xAA, 0xAA, 0x00, 0x00, 0x00, 0x00] \<longrightarrow>
      g_state (recv_times p data (length cs) s) = QCA7K_READING_FRAME \<and>
      g_state_bytes_left (recv_times p data (length cs) s) = 0 \<and>
      g_recv_buf_origin (recv_times p data (length cs) s) = data \<and>
      g_recv_buf_ptr (recv_times p data (length cs) s) = data \<and>
      mem (recv_times p data (length cs) s) = mem s \<and>
      miso (recv_times p data (length cs) s) = rest) \<and>
   (data \<noteq> NULL \<and>
    (g_recv_buf_origin s \<noteq> data \<or> g_state s = QCA7K_OK \<or>
     g_state s = QCA7K_INTERNAL_ERROR \<or>
     g_state s = QCA7K_READING_SOF \<and> g_state_bytes_left s = 4 \<and>
     g_expected_byte s = QCA7K_SOF \<and> g_fl s = 0) \<and>
    miso s = concat (map (call_bytes p) cs) @ rest \<and>
    concat cs = [0xAA, 0xAA, 0xAA, 0xAA, 0x00, 0x00, 0x00, 0x00, v] \<longrightarrow>
      g_state (recv_times p data (length cs) s) = QCA7K_READING_FRAME \<and>
      g_state_bytes_left (recv_times p data (length cs) s) = 2 ^ size_bits p - 1 \<and>
      g_recv_buf_origin (recv_times p data (length cs) s) = data \<and>
      g_recv_buf_ptr (recv_times p data (length cs) s) = data + 1 \<and>
      mem (recv_times p data (length cs) s) = (mem s)(data := v) \<and>
      miso (recv_times p data (length cs) s) = rest) \<and>
   (g_state s = QCA7K_READING_FL \<and> g_state_bytes_left s = 2 \<and> g_fl s = 0 \<and>
    miso s = 0x00 # 0x00 # 0x00 # 0x00 # v # rest \<and> i + 5 \<le> unat n \<longrightarrow>
      recv_loop p n i False s =
        recv_loop p n (i + 5) False
          (s\<lparr>miso := rest,
             trace := trace s @
               [SpiRead 0x00, SpiRead 0x00, SpiRead 0x00, SpiRead 0x00, SpiRead v],
             mem := (mem s)(g_recv_buf_origin s := v),
             g_state := QCA7K_READING_FRAME,
             g_recv_buf_ptr := g_recv_buf_origin s + 1,
             g_state_bytes_left := 2 ^ size_bits p - 1,
             g_expected_byte := QCA7K_RESERVED,
             g_fl := 0,
             recv_v := v\<rparr>))"
proof -
  have p1: "g_state s = QCA7K_READING_FL \<and> g_state_bytes_left s = 2 \<and> g_fl s = 0 \<longrightarrow>
      recv_byte p 0x00 s = (NextByte, s\<lparr>g_state_bytes_left := 1\<rparr>)"
    by (cases s) (simp add: recv_byte_def stage_end_def size_dec_small Let_def)
  have p2: "g_state s = QCA7K_READING_FL \<and> g_state_bytes_left s = 1 \<and> g_fl s = 0 \<longrightarrow>
      recv_byte p 0x00 s =
        (NextByte, s\<lparr>g_state := QCA7K_READING_RESERVED, g_state_bytes_left := 2,
                     g_expected_byte := QCA7K_RESERVED\<rparr>)"
    by (cases s) (simp add: recv_byte_def stage_end_def size_dec_small Let_def)
  have p3: "g_state s = QCA7K_READING_RESERVED \<and> g_state_bytes_left s = 2 \<and>
    g_expected_byte s = QCA7K_RESERVED \<longrightarrow>
      recv_byte p 0x00 s = (NextByte, s\<lparr>g_state_bytes_left := 1\<rparr>)"
    by (cases s) (simp add: recv_byte_def sentinel_byte_def stage_end_def size_dec_small
        QCA7K_RESERVED_def Let_def)
  have p4: "g_state s = QCA7K_READING_RESERVED \<and> g_state_bytes_left s = 1 \<and>
    g_expected_byte s = QCA7K_RESERVED \<and> g_fl s = 0 \<longrightarrow>
      recv_byte p 0x00 s =
        (NextByte, s\<lparr>g_state := QCA7K_READING_FRAME,
                     g_recv_buf_ptr := g_recv_buf_origin s,
                     g_state_bytes_left := 0\<rparr>)"
    by (cases s) (simp add: recv_byte_def sentinel_byte_def stage_end_def size_dec_small
        QCA7K_RESERVED_def Let_def)
  have p5: "g_state s = QCA7K_READING_FRAME \<and> g_state_bytes_left s = 0 \<longrightarrow>
      recv_byte p v s =
        (NextByte, s\<lparr>mem := (mem s)(g_recv_buf_ptr s := v),
                     g_recv_buf_ptr := g_recv_buf_ptr s + 1,
                     g_state_bytes_left := 2 ^ size_bits p - 1\<rparr>) \<and>
      g_state (snd (recv_byte p v s)) = QCA7K_READING_FRAME \<and>
      g_state (snd (recv_byte p v s)) \<noteq> QCA7K_READING_EOF"
    by (cases s) (simp add: recv_byte_def stage_end_def size_dec_zero size_max_pos Let_def)
  have p6: "i < unat n \<and> miso s = b # bs \<and>
    recv_byte p b (s\<lparr>miso := bs, trace := trace s @ [SpiRead b], recv_v := b\<rparr>) =
      (NextByte, s') \<longrightarrow>
      recv_loop p n i False s = recv_loop p n (i + 1) False s'"
    by (simp add: recv_loop_read)
  have p7: "\<not> i < unat n \<longrightarrow> recv_loop p n i False s = s"
    by (simp add: recv_loop_stop)
  have p8: "data \<noteq> NULL \<and> g_recv_buf_origin s = data \<and> g_state s \<noteq> QCA7K_OK \<and>
    g_state s \<noteq> QCA7K_INTERNAL_ERROR \<and>
    register_value p (bus_byte s 0) (bus_byte s 1) = n \<and> n \<noteq> 0 \<longrightarrow>
      qca7k_recv p data s =
        (let s1 = recv_loop p n 0 False
                    (s\<lparr>miso := drop 2 (miso s),
                       trace := trace s @
                         [SpiBegin, SpiWrite 0xC3, SpiWrite 0x00,
                          SpiRead (bus_byte s 0), SpiRead (bus_byte s 1), SpiEnd,
                          SpiBegin, SpiWrite 0x80, SpiWrite 0x00]\<rparr>)
         in (g_state s1, s1\<lparr>trace := trace s1 @ [SpiEnd]\<rparr>))"
    using recv_resume [of data s p n] by blast
  have p9: "data \<noteq> NULL \<and> g_recv_buf_origin s = data \<and> g_state s = QCA7K_READING_FL \<and>
    g_state_bytes_left s = 2 \<and> g_fl s = 0 \<and>
    miso s = concat (map (call_bytes p) cs) @ rest \<and>
    concat cs = [0x00, 0x00, 0x00, 0x00] \<longrightarrow>
      g_state (recv_times p data (length cs) s) = QCA7K_READING_FRAME \<and>
      g_state_bytes_left (recv_times p data (length cs) s) = 0 \<and>
      g_recv_buf_origin (recv_times p data (length cs) s) = data \<and>
      g_recv_buf_ptr (recv_times p data (length cs) s) = data \<and>
      mem (recv_times p data (length cs) s) = mem s \<and>
      miso (recv_times p data (length cs) s) = rest"
  proof
    assume a: "data \<noteq> NULL \<and> g_recv_buf_origin s = data \<and> g_state s = QCA7K_READING_FL \<and>
      g_state_bytes_left s = 2 \<and> g_fl s = 0 \<and>
      miso s = concat (map (call_bytes p) cs) @ rest \<and>
      concat cs = [0x00, 0x00, 0x00, 0x00]"
    then have at: "zero_frame_at p data v (mem s) 4 s"
      by (simp add: zero_frame_at_def)
    from a have c: "concat cs = take (8 - 4) (drop 4 (zero_frame v))"
      by (simp add: zero_frame_def)
    from a have "data \<noteq> NULL" "miso s = concat (map (call_bytes p) cs) @ rest" by simp_all
    from zero_frame_calls [OF at this c]
    show "g_state (recv_times p data (length cs) s) = QCA7K_READING_FRAME \<and>
      g_state_bytes_left (recv_times p data (length cs) s) = 0 \<and>
      g_recv_buf_origin (recv_times p data (length cs) s) = data \<and>
      g_recv_buf_ptr (recv_times p data (length cs) s) = data \<and>
      mem (recv_times p data (length cs) s) = mem s \<and>
      miso (recv_times p data (length cs) s) = rest"
      by (simp add: zero_frame_at_def)
  qed
  have p10: "data \<noteq> NULL \<and> g_recv_buf_origin s = data \<and> g_state s = QCA7K_READING_FL \<and>
    g_state_bytes_left s = 2 \<and> g_fl s = 0 \<and>
    miso s = concat (map (call_bytes p) cs) @ rest \<and>
    concat cs = [0x00, 0x00, 0x00, 0x00, v] \<longrightarrow>
      g_state (recv_times p data (length cs) s) = QCA7K_READING_FRAME \<and>
      g_state_bytes_left (recv_times p data (length cs) s) = 2 ^ size_bits p - 1 \<and>
      g_recv_buf_origin (recv_times p data (length cs) s) = data \<and>
      g_recv_buf_ptr (recv_times p data (length cs) s) = data + 1 \<and>
      mem (recv_times p data (length cs) s) = (mem s)(data := v) \<and>
      miso (recv_times p data (length cs) s) = rest"
  proof
    assume a: "data \<noteq> NULL \<and> g_recv_buf_origin s = data \<and> g_state s = QCA7K_READING_FL \<and>
      g_state_bytes_left s = 2 \<and> g_fl s = 0 \<and>
      miso s = concat (map (call_bytes p) cs) @ rest \<and>
      concat cs = [0x00, 0x00, 0x00, 0x00, v]"
    then have at: "zero_frame_at p data v (mem s) 4 s"
      by (simp add: zero_frame_at_def)
    from a have c: "concat cs = take (9 - 4) (drop 4 (zero_frame v))"
      by (simp add: zero_frame_def)
    from a have "data \<noteq> NULL" "miso s = concat (map (call_bytes p) cs) @ rest" by simp_all
    from zero_frame_calls [OF at this c]
    show "g_state (recv_times p data (length cs) s) = QCA7K_READING_FRAME \<and>
      g_state_bytes_left (recv_times p data (length cs) s) = 2 ^ size_bits p - 1 \<and>
      g_recv_buf_origin (recv_times p data (length cs) s) = data \<and>
      g_recv_buf_ptr (recv_times p data (length cs) s) = data + 1 \<and>
      mem (recv_times p data (length cs) s) = (mem s)(data := v) \<and>
      miso (recv_times p data (length cs) s) = rest"
      by (simp add: zero_frame_at_def)
  qed
  have fresh: "zero_frame_at p data v (mem s) k
        (recv_times p data (length cs) s) \<and> miso (recv_times p data (length cs) s) = rest"
    if a: "data \<noteq> NULL"
      "g_recv_buf_origin s \<noteq> data \<or> g_state s = QCA7K_OK \<or>
       g_state s = QCA7K_INTERNAL_ERROR \<or>
       g_state s = QCA7K_READING_SOF \<and> g_state_bytes_left s = 4 \<and>
       g_expected_byte s = QCA7K_SOF \<and> g_fl s = 0"
      "miso s = concat (map (call_bytes p) cs) @ rest"
      "concat cs = take (k - 0) (drop 0 (zero_frame v))" "0 < k" "k \<le> 9" for k
  proof (cases "g_recv_buf_origin s \<noteq> data \<or> g_state s = QCA7K_OK \<or>
      g_state s = QCA7K_INTERNAL_ERROR")
    case True
    let ?r = "qca7k_reset_state_machine data s"
    from a(4,5) have "concat cs \<noteq> []" by (auto simp add: zero_frame_def)
    then obtain c cs' where cs: "cs = c # cs'" by (cases cs) auto
    have "recv_times p data (length cs) s = recv_times p data (length cs) ?r"
      using a(1) True by (simp add: cs recv_fresh [symmetric])
    moreover have "zero_frame_at p data v (mem s) 0 ?r"
      by (simp add: zero_frame_at_def qca7k_reset_state_machine_def)
    moreover from a(3) have "miso ?r = concat (map (call_bytes p) cs) @ rest"
      by (simp add: qca7k_reset_state_machine_def)
    ultimately show ?thesis
      using zero_frame_calls [of p data v "mem s" 0 ?r cs rest k] a(1,4,6) by simp
  next
    case False
    with a(2) have "zero_frame_at p data v (mem s) 0 s"
      by (simp add: zero_frame_at_def)
    from zero_frame_calls [OF this a(1) a(3) a(4) _ a(6)] show ?thesis by simp
  qed
  have p11: "data \<noteq> NULL \<and>
    (g_recv_buf_origin s \<noteq> data \<or> g_state s = QCA7K_OK \<or>
     g_state s = QCA7K_INTERNAL_ERROR \<or>
     g_state s = QCA7K_READING_SOF \<and> g_state_bytes_left s = 4 \<and>
     g_expected_byte s = QCA7K_SOF \<and> g_fl s = 0) \<and>
    miso s = concat (map (call_bytes p) cs) @ rest \<and>
    concat cs = [0xAA, 0xAA, 0xAA, 0xAA, 0x00, 0x00, 0x00, 0x00] \<longrightarrow>
      g_state (recv_times p data (length cs) s) = QCA7K_READING_FRAME \<and>
      g_state_bytes_left (recv_times p data (length cs) s) = 0 \<and>
      g_recv_buf_origin (recv_times p data (length cs) s) = data \<and>
      g_recv_buf_ptr (recv_times p data (length cs) s) = data \<and>
      mem (recv_times p data (length cs) s) = mem s \<and>
      miso (recv_times p data (length cs) s) = rest"
    using fresh [of 8] by (simp add: zero_frame_def zero_frame_at_def)
  have p12: "data \<noteq> NULL \<and>
    (g_recv_buf_origin s \<noteq> data \<or> g_state s = QCA7K_OK \<or>
     g_state s = QCA7K_INTERNAL_ERROR \<or>
     g_state s = QCA7K_READING_SOF \<and> g_state_bytes_left s = 4 \<and>
     g_expected_byte s = QCA7K_SOF \<and> g_fl s = 0) \<and>
    miso s = concat (map (call_bytes p) cs) @ rest \<and>
    concat cs = [0xAA, 0xAA, 0xAA, 0xAA, 0x00, 0x00, 0x00, 0x00, v] \<longrightarrow>
      g_state (recv_times p data (length cs) s) = QCA7K_READING_FRAME \<and>
      g_state_bytes_left (recv_times p data (length cs) s) = 2 ^ size_bits p - 1 \<and>
      g_recv_buf_origin (recv_times p data (length cs) s) = data \<and>
      g_recv_buf_ptr (recv_times p data (length cs) s) = data + 1 \<and>
      mem (recv_times p data (length cs) s) = (mem s)(data := v) \<and>
      miso (recv_times p data (length cs) s) = rest"
    using fresh [of 9] by (simp add: zero_frame_def zero_frame_at_def)
  have p13: "g_state s = QCA7K_READING_FL \<and> g_state_bytes_left s = 2 \<and> g_fl s = 0 \<and>
    miso s = 0x00 # 0x00 # 0x00 # 0x00 # v # rest \<and> i + 5 \<le> unat n \<longrightarrow>
      recv_loop p n i False s =
        recv_loop p n (i + 5) False
          (s\<lparr>miso := rest,
             trace := trace s @
               [SpiRead 0x00, SpiRead 0x00, SpiRead 0x00, SpiRead 0x00, SpiRead v],
             mem := (mem s)(g_recv_buf_origin s := v),
             g_state := QCA7K_READING_FRAME,
             g_recv_buf_ptr := g_recv_buf_origin s + 1,
             g_state_bytes_left := 2 ^ size_bits p - 1,
             g_expected_byte := QCA7K_RESERVED,
             g_fl := 0,
             recv_v := v\<rparr>)"
    using zero_length_frame_single_run [of s v rest i n p] by blast
  from p1 p2 p3 p4 p5 p6 p7 p8 p9 p10 p11 p12 p13 show ?thesis
    by (intro conjI)
qed

text \<open>On a little-endian host with a 32-bit \<^verbatim>\<open>size_t\<close>, a buffer at 4096 and the byte
  \<open>77\<close> after the reserved bytes: each of the five bytes on its own; one pass of the loop;
  a call with the eight bytes up to the second reserved byte, which returns
  \<open>QCA7K_READING_FRAME\<close> with a counter of 0; a later call with the one byte \<open>77\<close>, which
  leaves a counter of 4294967295; the bytes divided among two and three calls, one of
  them with nothing available, from the length stage, from the first call of all, and
  after a call that has returned \<open>QCA7K_OK\<close>; and the nine bytes in a single call.\<close>

theorem zero_length_frame_wraps_witness:
  "recv_byte ilp32_le 0x00 (example_receiver QCA7K_READING_FL 2 0xAA []) =
     (NextByte, example_receiver QCA7K_READING_FL 1 0xAA []) \<and>
   recv_byte ilp32_le 0x00 (example_receiver QCA7K_READING_FL 1 0xAA []) =
     (NextByte, example_receiver QCA7K_READING_RESERVED 2 0x00 []) \<and>
   recv_byte ilp32_le 0x00 (example_receiver QCA7K_READING_RESERVED 2 0x00 []) =
     (NextByte, example_receiver QCA7K_READING_RESERVED 1 0x00 []) \<and>
   recv_byte ilp32_le 0x00 (example_receiver QCA7K_READING_RESERVED 1 0x00 []) =
     (NextByte, example_receiver QCA7K_READING_FRAME 0 0x00 []) \<and>
   recv_byte ilp32_le 0x77 (example_receiver QCA7K_READING_FRAME 0 0x00 []) =
     (NextByte,
      (example_receiver QCA7K_READING_FRAME 4294967295 0x00 [])
        \<lparr>mem := (\<lambda>a. 0)(4096 := 0x77), g_recv_buf_ptr := 4097\<rparr>) \<and>
   recv_loop ilp32_le 1 0 False (example_receiver QCA7K_READING_FRAME 0 0x00 [0x77]) =
     (example_receiver QCA7K_READING_FRAME 4294967295 0x00 [])
       \<lparr>trace := [SpiRead 0x77], mem := (\<lambda>a. 0)(4096 := 0x77), g_recv_buf_ptr := 4097,
        recv_v := 0x77\<rparr> \<and>
   qca7k_recv ilp32_le 4096
     (initial_machine
        [0x08, 0x00, 0xAA, 0xAA, 0xAA, 0xAA, 0x00, 0x00, 0x00, 0x00] 0xFF (\<lambda>a. 0)) =
   (QCA7K_READING_FRAME,
    \<lparr>miso = [], miso_idle = 0xFF,
     trace = [SpiBegin, SpiWrite 0xC3, SpiWrite 0x00, SpiRead 0x08, SpiRead 0x00, SpiEnd,
              SpiBegin, SpiWrite 0x80, SpiWrite 0x00,
              SpiRead 0xAA, SpiRead 0xAA, SpiRead 0xAA, SpiRead 0xAA,
              SpiRead 0x00, SpiRead 0x00, SpiRead 0x00, SpiRead 0x00, SpiEnd],
     mem = (\<lambda>a. 0),
     g_state = QCA7K_READING_FRAME, g_recv_buf_origin = 4096, g_recv_buf_ptr = 4096,
     g_state_bytes_left = 0, g_expected_byte = 0x00, g_fl = 0, recv_v = 0x00\<rparr>) \<and>
   qca7k_recv ilp32_le 4096
     (example_receiver QCA7K_READING_FRAME 0 0x00 [0x01, 0x00, 0x77]) =
   (QCA7K_READING_FRAME,
    \<lparr>miso = [], miso_idle = 0xFF,
     trace = [SpiBegin, SpiWrite 0xC3, SpiWrite 0x00, SpiRead 0x01, SpiRead 0x00, SpiEnd,
              SpiBegin, SpiWrite 0x80, SpiWrite 0x00, SpiRead 0x77, SpiEnd],
     mem = (\<lambda>a. 0)(4096 := 0x77),
     g_state = QCA7K_READING_FRAME, g_recv_buf_origin = 4096, g_recv_buf_ptr = 4097,
     g_state_bytes_left = 4294967295, g_expected_byte = 0x00, g_fl = 0, recv_v = 0x77\<rparr>) \<and>
   (let t = recv_times ilp32_le 4096 (Suc (Suc (Suc 0)))
              (example_receiver QCA7K_READING_FL 2 0xAA
                 [0x02, 0x00, 0x00, 0x00, 0x00, 0x00, 0x02, 0x00, 0x00, 0x00])
    in (g_state t, g_state_bytes_left t, g_recv_buf_ptr t, mem t 4096, miso t) =
       (QCA7K_READING_FRAME, 0, 4096, 0x00, [])) \<and>
   (let t = recv_times ilp32_le 4096 (Suc (Suc (Suc 0)))
              (example_receiver QCA7K_READING_FL 2 0xAA
                 [0x03, 0x00, 0x00, 0x00, 0x00, 0x00, 0x00, 0x02, 0x00, 0x00, 0x77])
    in (g_state t, g_state_bytes_left t, g_recv_buf_ptr t, mem t 4096, miso t) =
       (QCA7K_READING_FRAME, 4294967295, 4097, 0x77, [])) \<and>
   (let t = recv_times ilp32_le 4096 (Suc (Suc 0))
              (initial_machine
                 [0x05, 0x00, 0xAA, 0xAA, 0xAA, 0xAA, 0x00, 0x03, 0x00, 0x00, 0x00, 0x00]
                 0xFF (\<lambda>a. 0))
    in (g_state t, g_state_bytes_left t, g_recv_buf_ptr t, mem t 4096, miso t) =
       (QCA7K_READING_FRAME, 0, 4096, 0x00, [])) \<and>
   (let t = recv_times ilp32_le 4096 (Suc (Suc (Suc 0)))
              (initial_machine
                 [0x05, 0x00, 0xAA, 0xAA, 0xAA, 0xAA, 0x00, 0x03, 0x00, 0x00, 0x00, 0x00,
                  0x01, 0x00, 0x77]
                 0xFF (\<lambda>a. 0))
    in (g_state t, g_state_bytes_left t, g_recv_buf_ptr t, mem t 4096, miso t) =
       (QCA7K_READING_FRAME, 4294967295, 4097, 0x77, [])) \<and>
   (let t = recv_times ilp32_le 4096 (Suc (Suc 0))
              (example_receiver QCA7K_OK 0 0x00
                 [0x08, 0x00, 0xAA, 0xAA, 0xAA, 0xAA, 0x00, 0x00, 0x00, 0x00,
                  0x01, 0x00, 0x77])
    in (g_state t, g_state_bytes_left t, g_recv_buf_ptr t, mem t 4096, miso t) =
       (QCA7K_READING_FRAME, 4294967295, 4097, 0x77, [])) \<and>
   qca7k_recv ilp32_le 4096
     (initial_machine
        [0x09, 0x00, 0xAA, 0xAA, 0xAA, 0xAA, 0x00, 0x00, 0x00, 0x00, 0x77] 0xFF (\<lambda>a. 0)) =
   (QCA7K_READING_FRAME,
    \<lparr>miso = [], miso_idle = 0xFF,
     trace = [SpiBegin, SpiWrite 0xC3, SpiWrite 0x00, SpiRead 0x09, SpiRead 0x00, SpiEnd,
              SpiBegin, SpiWrite 0x80, SpiWrite 0x00,
              SpiRead 0xAA, SpiRead 0xAA, SpiRead 0xAA, SpiRead 0xAA,
              SpiRead 0x00, SpiRead 0x00, SpiRead 0x00, SpiRead 0x00, SpiRead 0x77, SpiEnd],
     mem = (\<lambda>a. 0)(4096 := 0x77),
     g_state = QCA7K_READING_FRAME, g_recv_buf_origin = 4096, g_recv_buf_ptr = 4097,
     g_state_bytes_left = 4294967295, g_expected_byte = 0x00, g_fl = 0, recv_v = 0x77\<rparr>)"
proof -
  note length1 = zero_length_frame_wraps
    [where s = "example_receiver QCA7K_READING_FL 2 0xAA []" and p = ilp32_le,
     THEN conjunct1]
  note length2 = zero_length_frame_wraps
    [where s = "example_receiver QCA7K_READING_FL 1 0xAA []" and p = ilp32_le,
     THEN conjunct2, THEN conjunct1]
  note reserved1 = zero_length_frame_wraps
    [where s = "example_receiver QCA7K_READING_RESERVED 2 0x00 []" and p = ilp32_le,
     THEN conjunct2, THEN conjunct2, THEN conjunct1]
  note reserved2 = zero_length_frame_wraps
    [where s = "example_receiver QCA7K_READING_RESERVED 1 0x00 []" and p = ilp32_le,
     THEN conjunct2, THEN conjunct2, THEN conjunct2, THEN conjunct1]
  note next_byte = zero_length_frame_wraps
    [where s = "example_receiver QCA7K_READING_FRAME 0 0x00 []" and p = ilp32_le
       and v = "0x77",
     THEN conjunct2, THEN conjunct2, THEN conjunct2, THEN conjunct2, THEN conjunct1]
  note pass = zero_length_frame_wraps
    [where s = "example_receiver QCA7K_READING_FRAME 0 0x00 [0x77]" and p = ilp32_le
       and i = 0 and n = 1 and b = "0x77" and bs = "[]"
       and s' = "(example_receiver QCA7K_READING_FRAME 4294967295 0x00 [])
           \<lparr>trace := [SpiRead 0x77], mem := (\<lambda>a. 0)(4096 := 0x77),
            g_recv_buf_ptr := 4097, recv_v := 0x77\<rparr>",
     THEN conjunct2, THEN conjunct2, THEN conjunct2, THEN conjunct2, THEN conjunct2, THEN conjunct1]
  note stop = zero_length_frame_wraps
    [where s = "(example_receiver QCA7K_READING_FRAME 4294967295 0x00 [])
           \<lparr>trace := [SpiRead 0x77], mem := (\<lambda>a. 0)(4096 := 0x77),
            g_recv_buf_ptr := 4097, recv_v := 0x77\<rparr>"
       and p = ilp32_le and i = 1 and n = 1,
     THEN conjunct2, THEN conjunct2, THEN conjunct2, THEN conjunct2, THEN conjunct2, THEN conjunct2, THEN conjunct1]
  note resume = zero_length_frame_wraps
    [where s = "example_receiver QCA7K_READING_FRAME 0 0x00 [0x01, 0x00, 0x77]"
       and p = ilp32_le and data = 4096 and n = 1,
     THEN conjunct2, THEN conjunct2, THEN conjunct2, THEN conjunct2, THEN conjunct2, THEN conjunct2, THEN conjunct2, THEN conjunct1]
  note calls4 = zero_length_frame_wraps
    [where s = "example_receiver QCA7K_READING_FL 2 0xAA
                  [0x02, 0x00, 0x00, 0x00, 0x00, 0x00, 0x02, 0x00, 0x00, 0x00]"
       and p = ilp32_le and data = 4096 and rest = "[]"
       and cs = "[[0x00, 0x00], [], [0x00, 0x00]]",
     THEN conjunct2, THEN conjunct2, THEN conjunct2, THEN conjunct2, THEN conjunct2, THEN conjunct2, THEN conjunct2, THEN conjunct2, THEN conjunct1]
  note calls5 = zero_length_frame_wraps
    [where s = "example_receiver QCA7K_READING_FL 2 0xAA
                  [0x03, 0x00, 0x00, 0x00, 0x00, 0x00, 0x00, 0x02, 0x00, 0x00, 0x77]"
       and p = ilp32_le and data = 4096 and rest = "[]" and v = "0x77"
       and cs = "[[0x00, 0x00, 0x00], [], [0x00, 0x77]]",
     THEN conjunct2, THEN conjunct2, THEN conjunct2, THEN conjunct2, THEN conjunct2, THEN conjunct2, THEN conjunct2, THEN conjunct2, THEN conjunct2, THEN conjunct1]
  note calls8 = zero_length_frame_wraps
    [where s = "initial_machine
                  [0x05, 0x00, 0xAA, 0xAA, 0xAA, 0xAA, 0x00, 0x03, 0x00, 0x00, 0x00, 0x00]
                  0xFF (\<lambda>a. 0)"
       and p = ilp32_le and data = 4096 and rest = "[]"
       and cs = "[[0xAA, 0xAA, 0xAA, 0xAA, 0x00], [0x00, 0x00, 0x00]]",
     THEN conjunct2, THEN conjunct2, THEN conjunct2, THEN conjunct2, THEN conjunct2, THEN conjunct2, THEN conjunct2, THEN conjunct2, THEN conjunct2, THEN conjunct2, THEN conjunct1]
  note calls9 = zero_length_frame_wraps
    [where s = "initial_machine
                  [0x05, 0x00, 0xAA, 0xAA, 0xAA, 0xAA, 0x00, 0x03, 0x00, 0x00, 0x00, 0x00,
                   0x01, 0x00, 0x77]
                  0xFF (\<lambda>a. 0)"
       and p = ilp32_le and data = 4096 and rest = "[]" and v = "0x77"
       and cs = "[[0xAA, 0xAA, 0xAA, 0xAA, 0x00], [0x00, 0x00, 0x00], [0x77]]",
     THEN conjunct2, THEN conjunct2, THEN conjunct2, THEN conjunct2, THEN conjunct2, THEN conjunct2, THEN conjunct2, THEN conjunct2, THEN conjunct2, THEN conjunct2, THEN conjunct2, THEN conjunct1]
  note after_ok = zero_length_frame_wraps
    [where s = "example_receiver QCA7K_OK 0 0x00
                  [0x08, 0x00, 0xAA, 0xAA, 0xAA, 0xAA, 0x00, 0x00, 0x00, 0x00,
                   0x01, 0x00, 0x77]"
       and p = ilp32_le and data = 4096 and rest = "[]" and v = "0x77"
       and cs = "[[0xAA, 0xAA, 0xAA, 0xAA, 0x00, 0x00, 0x00, 0x00], [0x77]]",
     THEN conjunct2, THEN conjunct2, THEN conjunct2, THEN conjunct2, THEN conjunct2, THEN conjunct2, THEN conjunct2, THEN conjunct2, THEN conjunct2, THEN conjunct2, THEN conjunct2, THEN conjunct1]
  note run = zero_length_frame_wraps
    [where s = "\<lparr>miso = [0x00, 0x00, 0x00, 0x00, 0x77], miso_idle = 0xFF,
          trace = [SpiBegin, SpiWrite 0xC3, SpiWrite 0x00, SpiRead 0x09, SpiRead 0x00, SpiEnd,
                   SpiBegin, SpiWrite 0x80, SpiWrite 0x00,
                   SpiRead 0xAA, SpiRead 0xAA, SpiRead 0xAA, SpiRead 0xAA],
          mem = (\<lambda>a. 0),
          g_state = QCA7K_READING_FL, g_recv_buf_origin = 4096, g_recv_buf_ptr = 4096,
          g_state_bytes_left = 2, g_expected_byte = 0xAA, g_fl = 0, recv_v = 0xAA\<rparr>"
       and v = "0x77" and rest = "[]" and i = 4 and n = 9 and p = ilp32_le,
     THEN conjunct2, THEN conjunct2, THEN conjunct2, THEN conjunct2, THEN conjunct2, THEN conjunct2, THEN conjunct2, THEN conjunct2, THEN conjunct2, THEN conjunct2, THEN conjunct2, THEN conjunct2]
  show ?thesis
    using length1 length2 reserved1 reserved2 next_byte pass stop resume
      calls4 calls5 calls8 calls9 after_ok run
    by (simp add: recv_eval ilp32_le_def example_receiver_def call_bytes_def count_bytes_def)
qed

section \<open>A sentinel byte that does not match\<close>

text \<open>In every sentinel stage a byte that differs from the expected one resets the
  context and the loop goes on to the next byte: the flow is never \<open>RetryByte\<close>.\<close>

lemma sentinel_mismatch_discards:
  "g_expected_byte s \<noteq> v \<Longrightarrow>
   sentinel_byte p v s = (NextByte, qca7k_reset_state_machine (g_recv_buf_origin s) s)"
  by (simp add: sentinel_byte_def qca7k_reset_state_machine_def)

text \<open>
  Claim C2. The claim is that a byte which fails the comparison in the reserved or
  end-of-frame stage is examined again as the first byte of a start of frame. Here ten
  bytes are available: \<open>AA AA AA AA\<close>, the length field \<open>00 3C\<close>, and \<open>AA AA AA AA\<close>
  where the reserved bytes should be. The first of these four fails the comparison with
  \<open>00\<close>. Examined again it would count as a start-of-frame byte, and the four together
  would complete the stage (state \<open>QCA7K_READING_FL\<close>). The call returns
  \<open>QCA7K_READING_SOF\<close> with one start-of-frame byte still to come: the byte was dropped.
\<close>

theorem recv_reserved_mismatch_drops_byte:
  "qca7k_recv ilp32_le 4096
     (initial_machine
        [0x0A, 0x00, 0xAA, 0xAA, 0xAA, 0xAA, 0x00, 0x3C, 0xAA, 0xAA, 0xAA, 0xAA] 0xFF (\<lambda>a. 0)) =
   (QCA7K_READING_SOF,
    \<lparr>miso = [], miso_idle = 0xFF,
     trace = [SpiBegin, SpiWrite 0xC3, SpiWrite 0x00, SpiRead 0x0A, SpiRead 0x00, SpiEnd,
              SpiBegin, SpiWrite 0x80, SpiWrite 0x00,
              SpiRead 0xAA, SpiRead 0xAA, SpiRead 0xAA, SpiRead 0xAA, SpiRead 0x00, SpiRead 0x3C,
              SpiRead 0xAA, SpiRead 0xAA, SpiRead 0xAA, SpiRead 0xAA, SpiEnd],
     mem = (\<lambda>a. 0),
     g_state = QCA7K_READING_SOF, g_recv_buf_origin = 4096, g_recv_buf_ptr = 4096,
     g_state_bytes_left = 1, g_expected_byte = 0xAA, g_fl = 0, recv_v = 0xAA\<rparr>)"
  by (simp add: recv_eval ilp32_le_def)

theorem recv_reserved_mismatch_drops_byte_witness:
  "fst (qca7k_recv ilp32_le 4096
     (initial_machine
        [0x0A, 0x00, 0xAA, 0xAA, 0xAA, 0xAA, 0x00, 0x3C, 0xAA, 0xAA, 0xAA, 0xAA] 0xFF (\<lambda>a. 0)))
     = QCA7K_READING_SOF \<and>
   g_state_bytes_left (snd (qca7k_recv ilp32_le 4096
     (initial_machine
        [0x0A, 0x00, 0xAA, 0xAA, 0xAA, 0xAA, 0x00, 0x3C, 0xAA, 0xAA, 0xAA, 0xAA] 0xFF (\<lambda>a. 0))))
     = 1"
  using recv_reserved_mismatch_drops_byte by simp

section \<open>A frame longer than the buffer\<close>

text \<open>
  Claim C3. The claim is that the write cursor never passes \<open>origin + QCA7K_FRAME_MAX\<close>.
  Here the chip presents a frame whose length field is 1536 and the first 1523 bytes of
  its payload, all of them available to one call, to a receiver whose buffer is at
  address 4096. After the call the write cursor is at \<open>4096 + QCA7K_FRAME_MAX + 1\<close> and
  the byte at offset \<open>QCA7K_FRAME_MAX\<close>, the first one behind a buffer of
  \<open>QCA7K_FRAME_MAX\<close> bytes, holds a payload byte.
\<close>

theorem recv_overruns_buffer:
  "g_recv_buf_origin (snd (qca7k_recv ilp32_le 4096
      (initial_machine (0xFB # 0x05 # overlong_frame) 0xFF (\<lambda>a. 0)))) = 4096 \<and>
   g_recv_buf_ptr (snd (qca7k_recv ilp32_le 4096
      (initial_machine (0xFB # 0x05 # overlong_frame) 0xFF (\<lambda>a. 0))))
     = 4096 + QCA7K_FRAME_MAX + 1 \<and>
   mem (snd (qca7k_recv ilp32_le 4096
      (initial_machine (0xFB # 0x05 # overlong_frame) 0xFF (\<lambda>a. 0))))
     (4096 + QCA7K_FRAME_MAX) = 0x11"
proof -
  define t0 where "t0 =
     [SpiBegin, SpiWrite 0xC3, SpiWrite 0x00, SpiRead 0xFB, SpiRead 0x05, SpiEnd,
      SpiBegin, SpiWrite 0x80, SpiWrite 0x00]"
  define s0 where "s0 = \<lparr>miso = overlong_frame, miso_idle = 0xFF, trace = t0, mem = (\<lambda>a. 0),
      g_state = QCA7K_READING_SOF, g_recv_buf_origin = 4096, g_recv_buf_ptr = 4096,
      g_state_bytes_left = 4, g_expected_byte = QCA7K_SOF, g_fl = 0, recv_v = 0x00\<rparr>"
  define s8 where "s8 = s0\<lparr>miso := replicate 1523 0x11,
      trace := t0 @ map SpiRead [0xAA, 0xAA, 0xAA, 0xAA, 0x06, 0x00, 0x00, 0x00],
      g_state := QCA7K_READING_FRAME, g_state_bytes_left := 1536,
      g_expected_byte := QCA7K_RESERVED, g_fl := 0x0600\<rparr>"
  define s9 where "s9 = s8\<lparr>miso := [],
      trace := trace s8 @ map SpiRead (replicate 1523 0x11),
      mem := store_bytes (mem s8) 4096 (replicate 1523 0x11),
      g_recv_buf_ptr := 4096 + 1523,
      g_state_bytes_left := 13,
      recv_v := 0x11\<rparr>"
  have call: "qca7k_recv ilp32_le 4096
      (initial_machine (0xFB # 0x05 # overlong_frame) 0xFF (\<lambda>a. 0)) =
      (g_state (qca7k_spi_end (recv_loop ilp32_le 0x05FB 0 False s0)),
       qca7k_spi_end (recv_loop ilp32_le 0x05FB 0 False s0))"
    by (simp add: qca7k_recv_def recv_scan_def qca7k_reset_state_machine_def initial_machine_def
        NULL_def write_command_bytes read_register_eq bus_byte_def register_value_def
        qca7k_spi_begin_def qca7k_spi_end_def ilp32_le_def s0_def t0_def Let_def)
  have "recv_loop ilp32_le 0x05FB 0 False s0 = recv_loop ilp32_le 0x05FB (0 + 8) False s8"
    using recv_loop_header [of s0 "0x06" "0x00" "replicate 1523 0x11" 0 "0x05FB" ilp32_le]
    by (simp add: s0_def s8_def overlong_frame_def)
  also have "\<dots> =
      recv_loop ilp32_le 0x05FB (0 + 8 + length (replicate 1523 (0x11::u8))) False s9"
    using recv_loop_frame_copy [of s8 "replicate 1523 0x11" "[]" ilp32_le "0 + 8" "0x05FB"]
    by (simp add: s8_def s9_def s0_def size_bits_def ilp32_le_def)
  also have "\<dots> = s9"
    by (rule recv_loop_stop) simp
  finally have loop: "recv_loop ilp32_le 0x05FB 0 False s0 = s9" .
  have "store_bytes (\<lambda>a. 0) 4096 (replicate 1523 (0x11::u8)) (4096 + 1522) =
      replicate 1523 0x11 ! 1522"
    by (rule store_bytes_nth) simp
  then have m: "mem s9 5618 = 0x11"
    by (simp add: s9_def s8_def s0_def)
  have res: "snd (qca7k_recv ilp32_le 4096
      (initial_machine (0xFB # 0x05 # overlong_frame) 0xFF (\<lambda>a. 0))) = qca7k_spi_end s9"
    unfolding call loop by simp
  show ?thesis
    unfolding res using m
    by (simp add: qca7k_spi_end_def QCA7K_FRAME_MAX_def s9_def s8_def s0_def)
qed

theorem recv_overruns_buffer_witness:
  "\<not> g_recv_buf_ptr (snd (qca7k_recv ilp32_le 4096
        (initial_machine (0xFB # 0x05 # overlong_frame) 0xFF (\<lambda>a. 0))))
      \<le> g_recv_buf_origin (snd (qca7k_recv ilp32_le 4096
        (initial_machine (0xFB # 0x05 # overlong_frame) 0xFF (\<lambda>a. 0)))) + QCA7K_FRAME_MAX"
  using recv_overruns_buffer by simp

section \<open>Round trip\<close>

text \<open>
  Claim C4. The claim is that the receiver, fed with the bytes the transmitter emits for
  a payload, ends in \<open>QCA7K_OK\<close> with the padded payload in the buffer. Here the 68 bytes
  that \<^verbatim>\<open>qca7k_send\<close> emits for the payload \<open>01 .. 0A\<close> are all available to one call of
  \<^verbatim>\<open>qca7k_recv\<close>. The receiver takes the two reserved bytes for a length field of zero,
  then meets the payload byte \<open>01\<close> where it expects a reserved byte, resets, and finds
  no start of frame in the rest. The call consumes all 68 bytes and returns
  \<open>QCA7K_READING_SOF\<close>; nothing has been stored in the buffer.
\<close>

theorem round_trip_fails:
  "qca7k_recv ilp32_le 4096
     (initial_machine
        (0x44 # 0x00 #
         sent_frame ilp32_le 100 10 (initial_machine [0x46, 0x00] 0xFF example_memory))
        0xFF (\<lambda>a. 0)) =
   (QCA7K_READING_SOF,
    \<lparr>miso = [], miso_idle = 0xFF,
     trace = [SpiBegin, SpiWrite 0xC3, SpiWrite 0x00, SpiRead 0x44, SpiRead 0x00, SpiEnd,
              SpiBegin, SpiWrite 0x80, SpiWrite 0x00] @
             map SpiRead
               (sent_frame ilp32_le 100 10 (initial_machine [0x46, 0x00] 0xFF example_memory)) @
             [SpiEnd],
     mem = (\<lambda>a. 0),
     g_state = QCA7K_READING_SOF, g_recv_buf_origin = 4096, g_recv_buf_ptr = 4096,
     g_state_bytes_left = 4, g_expected_byte = 0xAA, g_fl = 0, recv_v = 0x55\<rparr>)"
  unfolding sent_frame_example
  by (simp add: recv_eval ilp32_le_def)

theorem round_trip_fails_witness:
  "fst (qca7k_recv ilp32_le 4096
     (initial_machine
        (0x44 # 0x00 #
         sent_frame ilp32_le 100 10 (initial_machine [0x46, 0x00] 0xFF example_memory))
        0xFF (\<lambda>a. 0))) \<noteq> QCA7K_OK"
  using round_trip_fails by simp

end
